theory Spec2Isabelle
  imports Complex_Main
begin

section \<open>CCTV exposure: the program of \<open>src/exposure_python/main.py\<close>\<close>

text \<open>
  The embedding follows \<open>main.py\<close> function by function. Finite floating-point numbers
  are idealised as real numbers; an exception is a value \<open>Inl e\<close> of \<open>error + 'a\<close>.
  numpy arithmetic never raises: where it divides by zero it yields \<open>inf\<close> or \<open>nan\<close>
  with a warning and the run goes on with that value, so the values of numpy floats are
  the reals extended by \<open>inf\<close>, \<open>-inf\<close> and \<open>nan\<close>.
\<close>

subsection \<open>Values, errors and the builtins \<open>float\<close> and \<open>int\<close>\<close>

datatype error =
    TypeError | ValueError | ZeroDivisionError | IndexError | KeyError
  | AttributeError | StopIteration

text \<open>What a camera dictionary can hold under a key.\<close>

datatype pyval = PNone | PStr string | PInt int | PFloat real

type_synonym camera = "string \<rightharpoonup> pyval"

text \<open>
  \<open>float(s)\<close> and \<open>int(s)\<close> on a string are builtins of the language, not code of
  the repository: how they read a string is a parameter of the model (\<open>None\<close> is the
  string they reject with ValueError).
\<close>

record builtins =
  str_float :: "string \<Rightarrow> real option"
  str_int :: "string \<Rightarrow> int option"

fun py_float :: "builtins \<Rightarrow> pyval \<Rightarrow> error + real" where
  "py_float B PNone = Inl TypeError"
| "py_float B (PStr s) = (case str_float B s of None \<Rightarrow> Inl ValueError | Some r \<Rightarrow> Inr r)"
| "py_float B (PInt i) = Inr (of_int i)"
| "py_float B (PFloat r) = Inr r"

fun py_int :: "builtins \<Rightarrow> pyval \<Rightarrow> error + int" where
  "py_int B PNone = Inl TypeError"
| "py_int B (PStr s) = (case str_int B s of None \<Rightarrow> Inl ValueError | Some i \<Rightarrow> Inr i)"
| "py_int B (PInt i) = Inr i"
| "py_int B (PFloat r) = Inr (if 0 \<le> r then \<lfloor>r\<rfloor> else \<lceil>r\<rceil>)"

text \<open>\<open>d.get(k, default)\<close> and \<open>d.get(k)\<close>.\<close>

definition get_or :: "camera \<Rightarrow> string \<Rightarrow> pyval \<Rightarrow> pyval" where
  "get_or cam k dflt = (case cam k of None \<Rightarrow> dflt | Some v \<Rightarrow> v)"

definition get :: "camera \<Rightarrow> string \<Rightarrow> pyval" where
  "get cam k = get_or cam k PNone"

text \<open>A number as the operand of \<open>-\<close> and \<open>+\<close> with a float: a string or None raises.\<close>

fun py_number :: "pyval \<Rightarrow> error + real" where
  "py_number (PInt i) = Inr (of_int i)"
| "py_number (PFloat r) = Inr r"
| "py_number (PStr s) = Inl TypeError"
| "py_number PNone = Inl TypeError"

text \<open>\<open>x % m\<close> on floats, for a positive \<open>m\<close>.\<close>

definition py_fmod :: "real \<Rightarrow> real \<Rightarrow> real" where
  "py_fmod x m = x - m * of_int \<lfloor>x / m\<rfloor>"

text \<open>A plain decimal reading of strings, to run the model on concrete catalogs.\<close>

definition digit_of :: "char \<Rightarrow> nat option" where
  "digit_of c = map_of (zip ''0123456789'' [0, 1, 2, 3, 4, 5, 6, 7, 8, 9]) c"

fun digits_value :: "nat \<Rightarrow> string \<Rightarrow> nat option" where
  "digits_value acc [] = Some acc"
| "digits_value acc (c # cs) =
     (case digit_of c of None \<Rightarrow> None | Some d \<Rightarrow> digits_value (10 * acc + d) cs)"

definition dec_nat :: "string \<Rightarrow> nat option" where
  "dec_nat s = (if s = [] then None else digits_value 0 s)"

definition dec_int :: "string \<Rightarrow> int option" where
  "dec_int s =
     (case s of
        [] \<Rightarrow> None
      | c # cs \<Rightarrow>
          if c = CHR ''-'' then map_option (\<lambda>n. - int n) (dec_nat cs)
          else map_option int (dec_nat s))"

definition dec_float :: "string \<Rightarrow> real option" where
  "dec_float s =
     (let neg = (s \<noteq> [] \<and> hd s = CHR ''-'');
          body = (if neg then tl s else s);
          whole = takeWhile (\<lambda>c. c \<noteq> CHR ''.'') body;
          frac = drop (Suc (length whole)) body
      in case (dec_nat whole, if frac = [] then Some 0 else dec_nat frac) of
           (Some w, Some f) \<Rightarrow>
             Some ((if neg then - 1 else 1) * (real w + real f / 10 ^ length frac))
         | _ \<Rightarrow> None)"

definition decimal :: builtins where
  "decimal = \<lparr>str_float = dec_float, str_int = dec_int\<rparr>"

subsection \<open>Geometry\<close>

definition R :: real where
  "R = 6371"

definition resolution :: real where
  "resolution = 0.5"

definition deg2rad :: "real \<Rightarrow> real" where
  "deg2rad x = x * pi / 180"

definition degrees :: "real \<Rightarrow> real" where
  "degrees x = x * 180 / pi"

text \<open>\<open>np.arctan2(y, x)\<close>, the angle of the point \<open>(x, y)\<close> in \<open>(-pi, pi]\<close>.\<close>

definition arctan2 :: "real \<Rightarrow> real \<Rightarrow> real" where
  "arctan2 y x =
     (if 0 < x then arctan (y / x)
      else if x < 0 then (if 0 \<le> y then arctan (y / x) + pi else arctan (y / x) - pi)
      else if 0 < y then pi / 2
      else if y < 0 then - (pi / 2)
      else 0)"

definition haversine_distance :: "real \<Rightarrow> real \<Rightarrow> real \<Rightarrow> real \<Rightarrow> real" where
  "haversine_distance lat0 lon0 lat1 lon1 =
     (let lat_diff_rad = deg2rad (lat1 - lat0);
          lon_diff_rad = deg2rad (lon1 - lon0);
          radlat = deg2rad lat0;
          radlat1 = deg2rad lat1;
          a = (sin (lat_diff_rad / 2)) ^ 2
              + (sin (lon_diff_rad / 2)) ^ 2 * cos radlat * cos radlat1;
          c = 2 * arctan2 (sqrt a) (sqrt (1 - a))
      in R * c * 1000)"

definition get_coordinates :: "real \<Rightarrow> real \<Rightarrow> real \<Rightarrow> real \<Rightarrow> real \<times> real" where
  "get_coordinates lat lng bearing distance =
     (let brng = deg2rad bearing;
          d = distance / 1000;
          lat1 = deg2rad lat;
          lon1 = deg2rad lng;
          lat2 = arcsin (sin lat1 * cos (d / R) + cos lat1 * sin (d / R) * cos brng);
          lon2 = lon1 + arctan2 (sin brng * sin (d / R) * cos lat1)
                                (cos (d / R) - sin lat1 * sin lat2)
      in (degrees lat2, degrees lon2))"

definition quick_distance :: "real \<Rightarrow> real \<Rightarrow> real \<Rightarrow> real \<Rightarrow> real" where
  "quick_distance lat0 lon0 lat1 lon1 =
     (let x = lat1 - lat0;
          y = (lon1 - lon0) * cos ((lat1 + lat0) * 0.00872664626)
      in 111319 * sqrt (x * x + y * y))"

definition get_bearing :: "real \<Rightarrow> real \<Rightarrow> real \<Rightarrow> real \<Rightarrow> real" where
  "get_bearing lat0 lon0 lat1 lon1 =
     (let dlon = deg2rad lon1 - deg2rad lon0;
          dphi = ln (tan (deg2rad lat1 / 2 + pi / 4) / tan (deg2rad lat0 / 2 + pi / 4));
          dlon = (if \<bar>dlon\<bar> > pi
                  then (if dlon > 0 then - (2 * pi - dlon) else 2 * pi + dlon)
                  else dlon)
      in py_fmod (degrees (arctan2 dlon dphi) + 360) 360)"

subsection \<open>The field-of-view test\<close>

text \<open>
  \<open>check_dist_to_cam(self, d, cam, lat, lon, addon)\<close>; \<open>radius\<close> is \<open>self.radius\<close>, the
  \<open>--radius\<close> argument (an int, or None when the option is not given). Python's
  \<open>self.radius if self.radius else ...\<close> tests truth: None and 0 are both false.
\<close>

definition effective_radius :: "builtins \<Rightarrow> int option \<Rightarrow> camera \<Rightarrow> error + real" where
  "effective_radius B radius cam =
     (case radius of
        Some r \<Rightarrow> if r \<noteq> 0 then Inr (of_int r) else py_float B (get_or cam ''radius'' (PInt 10))
      | None \<Rightarrow> py_float B (get_or cam ''radius'' (PInt 10)))"

definition directed_test ::
  "builtins \<Rightarrow> camera \<Rightarrow> real \<Rightarrow> real \<Rightarrow> error + bool" where
  "directed_test B cam lat lon =
     (case py_int B (get_or cam ''angle of view'' (PStr ''360'')) of
        Inl e \<Rightarrow> Inl e
      | Inr angle \<Rightarrow>
          let direction = get_or cam ''direction'' PNone in
          if angle < 360 then
            (case py_number direction of
               Inl e \<Rightarrow> Inl e
             | Inr dir \<Rightarrow>
                 let lo = py_fmod (dir - of_int angle / 2 + 360) 360;
                     hi = py_fmod (dir + of_int angle / 2 + 360) 360
                 in case py_float B (get cam ''latitude'') of
                      Inl e \<Rightarrow> Inl e
                    | Inr clat \<Rightarrow>
                        (case py_float B (get cam ''longitude'') of
                           Inl e \<Rightarrow> Inl e
                         | Inr clon \<Rightarrow>
                             let bearing = get_bearing clat clon lat lon
                             in Inr (lo \<le> bearing \<and> bearing \<le> hi)))
          else Inr True)"

definition check_dist_to_cam ::
  "builtins \<Rightarrow> int option \<Rightarrow> real \<Rightarrow> camera \<Rightarrow> real \<Rightarrow> real \<Rightarrow> real \<Rightarrow> error + bool" where
  "check_dist_to_cam B radius d cam lat lon addon =
     (case effective_radius B radius cam of
        Inl e \<Rightarrow> Inl e
      | Inr fov \<Rightarrow>
          if d \<le> fov + addon then
            (let camtype = get_or cam ''camera type'' (PStr ''round'') in
             if camtype = PStr ''round'' then Inr True
             else if camtype = PStr ''directed'' then directed_test B cam lat lon
             else Inr False)
          else Inr False)"

text \<open>
  The FOV test of one camera on one point, as both callers write it (lines 120-122 of
  \<open>point_in_camera_fov\<close> and lines 156-159 of \<open>test_points\<close>): the planar distance
  from the point to the camera, then \<open>check_dist_to_cam\<close> on it. Returns the distance
  with the verdict.
\<close>

definition is_in_fov ::
  "builtins \<Rightarrow> int option \<Rightarrow> camera \<Rightarrow> real \<Rightarrow> real \<Rightarrow> real \<Rightarrow> error + (real \<times> bool)" where
  "is_in_fov B radius cam lat lon addon =
     (case py_float B (get cam ''latitude'') of
        Inl e \<Rightarrow> Inl e
      | Inr clat \<Rightarrow>
          (case py_float B (get cam ''longitude'') of
             Inl e \<Rightarrow> Inl e
           | Inr clon \<Rightarrow>
               let distance = quick_distance lat lon clat clon
               in case check_dist_to_cam B radius distance cam lat lon addon of
                    Inl e \<Rightarrow> Inl e
                  | Inr v \<Rightarrow> Inr (distance, v)))"

subsection \<open>Loading the camera catalog\<close>

text \<open>
  \<open>load_cameras\<close> on the rows \<open>csv.reader\<close> yields (the first is the header). Every
  non-empty cell is stored under its column's name, as the string it is. An unreadable
  file is re-raised before any row is read and is not part of the model.
\<close>

fun load_row :: "string list \<Rightarrow> nat \<Rightarrow> string list \<Rightarrow> camera \<Rightarrow> error + camera" where
  "load_row columns i [] cam = Inr cam"
| "load_row columns i (column # row) cam =
     (if column \<noteq> [] then
        (if i < length columns
         then load_row columns (Suc i) row (cam(columns ! i \<mapsto> PStr column))
         else Inl IndexError)
      else load_row columns (Suc i) row cam)"

fun load_rows :: "string list \<Rightarrow> nat \<Rightarrow> string list list \<Rightarrow> error + (nat \<times> camera) list" where
  "load_rows columns index [] = Inr []"
| "load_rows columns index (row # rows) =
     (case load_row columns 0 row Map.empty of
        Inl e \<Rightarrow> Inl e
      | Inr cam \<Rightarrow>
          (case load_rows columns (Suc index) rows of
             Inl e \<Rightarrow> Inl e
           | Inr cams \<Rightarrow> Inr ((index, cam) # cams)))"

definition load_cameras :: "string list list \<Rightarrow> error + (nat \<times> camera) list" where
  "load_cameras reader =
     (case reader of
        [] \<Rightarrow> Inl StopIteration
      | columns # rows \<Rightarrow> load_rows columns 0 rows)"

subsection \<open>Track points and the state of \<open>CCTVExposure\<close>\<close>

text \<open>
  A track point of the GPX segment: \<open>time\<close> is the timestamp in seconds (None when the
  point has none), \<open>speed\<close> the recorded speed (None when absent).
\<close>

record point =
  latitude :: real
  longitude :: real
  time :: "real option"
  speed :: "real option"

text \<open>
  The value of a float: a finite number, \<open>inf\<close>, \<open>-inf\<close> or \<open>nan\<close>, with the
  operations the program applies to numpy floats. Zero is not signed.
\<close>

datatype xreal = Fin real | PosInf | NegInf | NaN

fun is_finite :: "xreal \<Rightarrow> bool" where
  "is_finite (Fin a) = True"
| "is_finite PosInf = False"
| "is_finite NegInf = False"
| "is_finite NaN = False"

text \<open>\<open>x + y\<close>.\<close>

fun xadd :: "xreal \<Rightarrow> xreal \<Rightarrow> xreal" where
  "xadd (Fin a) (Fin b) = Fin (a + b)"
| "xadd NaN y = NaN"
| "xadd x NaN = NaN"
| "xadd PosInf NegInf = NaN"
| "xadd NegInf PosInf = NaN"
| "xadd PosInf y = PosInf"
| "xadd NegInf y = NegInf"
| "xadd x PosInf = PosInf"
| "xadd x NegInf = NegInf"

text \<open>\<open>x < y\<close>; every comparison with \<open>nan\<close> is false.\<close>

fun xless :: "xreal \<Rightarrow> xreal \<Rightarrow> bool" where
  "xless (Fin a) (Fin b) = (a < b)"
| "xless NaN y = False"
| "xless x NaN = False"
| "xless x NegInf = False"
| "xless PosInf y = False"
| "xless NegInf y = True"
| "xless x PosInf = True"

text \<open>\<open>x / y\<close> as numpy divides: a division by zero gives \<open>inf\<close>, \<open>-inf\<close> or \<open>nan\<close>.\<close>

fun xdiv :: "xreal \<Rightarrow> xreal \<Rightarrow> xreal" where
  "xdiv NaN y = NaN"
| "xdiv x NaN = NaN"
| "xdiv (Fin a) (Fin b) =
     (if b \<noteq> 0 then Fin (a / b)
      else if 0 < a then PosInf else if a < 0 then NegInf else NaN)"
| "xdiv (Fin a) y = Fin 0"
| "xdiv PosInf (Fin b) = (if 0 \<le> b then PosInf else NegInf)"
| "xdiv NegInf (Fin b) = (if 0 \<le> b then NegInf else PosInf)"
| "xdiv x y = NaN"

text \<open>\<open>x * c\<close> for a finite constant \<open>c\<close>.\<close>

fun xscale :: "xreal \<Rightarrow> real \<Rightarrow> xreal" where
  "xscale (Fin a) c = Fin (a * c)"
| "xscale NaN c = NaN"
| "xscale PosInf c = (if 0 < c then PosInf else if c < 0 then NegInf else NaN)"
| "xscale NegInf c = (if 0 < c then NegInf else if c < 0 then PosInf else NaN)"

text \<open>\<open>x != 0\<close>.\<close>

fun xne0 :: "xreal \<Rightarrow> bool" where
  "xne0 (Fin a) = (a \<noteq> 0)"
| "xne0 PosInf = True"
| "xne0 NegInf = True"
| "xne0 NaN = True"

text \<open>
  A float is a Python float or a \<open>numpy.float64\<close>; they differ in what a division by
  zero does. The Python floats of the program are finite: the recorded speeds and the
  sums of whole steps. The result of an operation is a numpy float as soon as one operand
  is.
\<close>

datatype pyfloat = PyFloat real | NpFloat xreal

fun fval :: "pyfloat \<Rightarrow> xreal" where
  "fval (PyFloat x) = Fin x"
| "fval (NpFloat x) = x"

fun fadd :: "pyfloat \<Rightarrow> pyfloat \<Rightarrow> pyfloat" where
  "fadd (PyFloat a) (PyFloat b) = PyFloat (a + b)"
| "fadd a b = NpFloat (xadd (fval a) (fval b))"

text \<open>A total that is a finite number, not negative.\<close>

definition fin_nonneg :: "pyfloat \<Rightarrow> bool" where
  "fin_nonneg t = (\<exists>r. fval t = Fin r \<and> 0 \<le> r)"

text \<open>The entry of \<open>cam_expo\<close> for one camera: \<open>{'points': [], 'dist': 0.0, 'time': 0.0}\<close>.\<close>

record cam_exposure =
  ce_points :: "nat list"
  ce_dist :: real
  ce_time :: xreal

text \<open>
  The fields of \<open>self\<close>. Dictionaries that are iterated are association lists in
  insertion order with distinct keys; a prediction dictionary \<open>{cam_id: cam}\<close> is the
  list of its keys, its values being \<open>self.cams[cam_id]\<close>.
\<close>

record exposure =
  radius :: "int option"
  accept_range :: real
  cams :: "(nat \<times> camera) list"
  time_enabled :: bool
  points :: "point list"
  distances :: "real list"
  cameras_per_point :: "(nat \<times> nat list) list"
  unique_cameras :: "nat set"
  cam_amount :: nat
  cam_expo :: "nat \<rightharpoonup> cam_exposure"
  speed_enabled :: bool
  total_distance :: real
  total_time :: real

subsection \<open>The membership pass\<close>

fun point_in_camera_fov_loop ::
  "builtins \<Rightarrow> int option \<Rightarrow> (nat \<times> camera) list \<Rightarrow> real \<Rightarrow> real
   \<Rightarrow> error + (nat list \<times> real list)" where
  "point_in_camera_fov_loop B rad [] lat lon = Inr ([], [])"
| "point_in_camera_fov_loop B rad (cam # rest) lat lon =
     (case is_in_fov B rad (snd cam) lat lon 0 of
        Inl e \<Rightarrow> Inl e
      | Inr (distance, inside) \<Rightarrow>
          (case point_in_camera_fov_loop B rad rest lat lon of
             Inl e \<Rightarrow> Inl e
           | Inr (results, dists) \<Rightarrow>
               Inr (if inside then fst cam # results else results, distance # dists)))"

definition point_in_camera_fov ::
  "builtins \<Rightarrow> exposure \<Rightarrow> real \<Rightarrow> real \<Rightarrow> error + (nat list \<times> real list)" where
  "point_in_camera_fov B self lat lon =
     point_in_camera_fov_loop B (radius self) (cams self) lat lon"

fun track_route_loop :: "builtins \<Rightarrow> exposure \<Rightarrow> nat \<Rightarrow> point list \<Rightarrow> error + exposure" where
  "track_route_loop B self index [] = Inr self"
| "track_route_loop B self index (p # rest) =
     (let self = (if time p = None then self\<lparr>time_enabled := False\<rparr> else self)
      in case point_in_camera_fov B self (latitude p) (longitude p) of
           Inl e \<Rightarrow> Inl e
         | Inr (predictions, dists) \<Rightarrow>
             let self = (if speed p \<noteq> None \<and> speed p \<noteq> Some 0
                         then self\<lparr>speed_enabled := True\<rparr> else self);
                 self = self\<lparr>distances := distances self @ dists\<rparr>;
                 self = (if predictions \<noteq> []
                         then self\<lparr>cameras_per_point :=
                                     cameras_per_point self @ [(index, predictions)],
                                   unique_cameras := unique_cameras self \<union> set predictions\<rparr>
                         else self)
             in track_route_loop B self (Suc index) rest)"

definition track_route :: "builtins \<Rightarrow> exposure \<Rightarrow> error + exposure" where
  "track_route B self =
     (case track_route_loop B self 0 (points self) of
        Inl e \<Rightarrow> Inl e
      | Inr self \<Rightarrow> Inr (self\<lparr>cam_amount := card (unique_cameras self)\<rparr>))"

text \<open>
  \<open>get_total_distance\<close>: for \<open>i\<close> in \<open>range(n - 1)\<close> the points \<open>[-1 - i]\<close> and
  \<open>[-2 - i]\<close>, counted from the end, are the points \<open>n - 1 - i\<close> and \<open>n - 2 - i\<close>.
\<close>

definition get_total_distance :: "exposure \<Rightarrow> real" where
  "get_total_distance self =
     (let number_of_points = length (points self)
      in fold (\<lambda>i distance.
                 distance
                 + quick_distance (latitude (points self ! (number_of_points - 1 - i)))
                                  (longitude (points self ! (number_of_points - 1 - i)))
                                  (latitude (points self ! (number_of_points - 2 - i)))
                                  (longitude (points self ! (number_of_points - 2 - i))))
              [0 ..< number_of_points - 1] 0)"

text \<open>
  \<open>__init__\<close>, from the \<open>--radius\<close> argument, the rows of the camera file and the
  points of the segment. \<open>new_exposure\<close> holds the fields as lines 74-85 set them, before
  \<open>track_route\<close> runs. \<open>self.points[-1]\<close> on an empty segment raises IndexError.
\<close>

definition new_exposure :: "int option \<Rightarrow> (nat \<times> camera) list \<Rightarrow> point list \<Rightarrow> exposure" where
  "new_exposure args_radius loaded gpx_points =
     \<lparr>radius = args_radius, accept_range = 1.0, cams = loaded,
      time_enabled = True, points = gpx_points, distances = [],
      cameras_per_point = [], unique_cameras = {}, cam_amount = 0,
      cam_expo = Map.empty, speed_enabled = False,
      total_distance = 0, total_time = 0\<rparr>"

definition init ::
  "builtins \<Rightarrow> int option \<Rightarrow> string list list \<Rightarrow> point list \<Rightarrow> error + exposure" where
  "init B args_radius camfile gpx_points =
     (case load_cameras camfile of
        Inl e \<Rightarrow> Inl e
      | Inr loaded \<Rightarrow>
          (case track_route B (new_exposure args_radius loaded gpx_points) of
             Inl e \<Rightarrow> Inl e
           | Inr self \<Rightarrow>
               let self = self\<lparr>total_distance := get_total_distance self\<rparr>
               in if time_enabled self then
                    (if points self = [] then Inl IndexError
                     else case (time (last (points self)), time (hd (points self))) of
                            (Some t1, Some t0) \<Rightarrow> Inr (self\<lparr>total_time := t1 - t0\<rparr>)
                          | _ \<Rightarrow> Inl TypeError)
                  else Inr (self\<lparr>total_time := 0\<rparr>)))"

subsection \<open>The exposure pass\<close>

text \<open>
  \<open>avg_speed_per_point\<close>: a numpy division; on a zero time difference it returns
  \<open>inf\<close> (or \<open>nan\<close> at distance 0) and does not raise.
\<close>

definition avg_speed_per_point :: "exposure \<Rightarrow> real \<Rightarrow> nat \<Rightarrow> nat \<Rightarrow> error + xreal" where
  "avg_speed_per_point self dst point1 point2 =
     (if length (points self) \<le> point2 \<or> length (points self) \<le> point1 then Inl IndexError
      else case (time (points self ! point2), time (points self ! point1)) of
             (Some t2, Some t1) \<Rightarrow>
               Inr (xdiv (Fin dst) (Fin \<bar>t2 - t1\<bar>))
           | _ \<Rightarrow> Inl TypeError)"

fun test_points_loop ::
  "builtins \<Rightarrow> exposure \<Rightarrow> nat \<Rightarrow> real \<Rightarrow> nat \<Rightarrow> real \<Rightarrow> real \<Rightarrow> nat \<Rightarrow> error + nat" where
  "test_points_loop B self cam course 0 lat lon result = Inr result"
| "test_points_loop B self cam course (Suc n) lat lon result =
     (let (new_lat, new_lon) = get_coordinates lat lon course resolution
      in case map_of (cams self) cam of
           None \<Rightarrow> Inl KeyError
         | Some c \<Rightarrow>
             (case is_in_fov B (radius self) c new_lat new_lon (accept_range self) of
                Inl e \<Rightarrow> Inl e
              | Inr (cam_distance, inside) \<Rightarrow>
                  if inside
                  then test_points_loop B self cam course n new_lat new_lon (result + 1)
                  else Inr result))"

definition test_points ::
  "builtins \<Rightarrow> exposure \<Rightarrow> nat \<Rightarrow> nat \<Rightarrow> nat \<Rightarrow> real \<Rightarrow> error + nat" where
  "test_points B self ind n_points cam course =
     (if length (points self) \<le> ind then Inl IndexError
      else test_points_loop B self cam course n_points
             (latitude (points self ! ind)) (longitude (points self ! ind)) 0)"

text \<open>\<open>np.rint\<close>: the nearest integer, a tie going to the even one.\<close>

definition rint :: "real \<Rightarrow> int" where
  "rint x =
     (let f = \<lfloor>x\<rfloor>; r = x - of_int f
      in if r < 1 / 2 then f else if 1 / 2 < r then f + 1
         else if even f then f else f + 1)"

text \<open>\<open>round(x, 2)\<close> on the idealised float; \<open>inf\<close> and \<open>nan\<close> round to themselves.\<close>

definition round2 :: "real \<Rightarrow> real" where
  "round2 x = of_int (rint (x * 100)) / 100"

fun xround2 :: "xreal \<Rightarrow> xreal" where
  "xround2 (Fin a) = Fin (round2 a)"
| "xround2 PosInf = PosInf"
| "xround2 NegInf = NegInf"
| "xround2 NaN = NaN"

text \<open>
  Lines 198-202: the number of pseudo points of one camera at one point. Running
  backward, a predecessor already known to be in the camera's FOV covers the whole gap.
  At point 0 the key \<open>point_ind - 1\<close> is \<open>-1\<close>, which \<open>cameras_per_point\<close> never holds.
\<close>

definition pseudo_points_of ::
  "builtins \<Rightarrow> exposure \<Rightarrow> bool \<Rightarrow> nat \<Rightarrow> nat \<Rightarrow> nat \<Rightarrow> real \<Rightarrow> error + nat" where
  "pseudo_points_of B self backward point_ind n_points cam course =
     (if backward \<and> 0 < point_ind
         \<and> (case map_of (cameras_per_point self) (point_ind - 1) of
               None \<Rightarrow> False
             | Some cameras \<Rightarrow> cameras \<noteq> [] \<and> cam \<in> set cameras)
      then Inr n_points
      else test_points B self point_ind n_points cam course)"

text \<open>
  Lines 204-208: the speed, None when the point's own speed field is read and is absent.
\<close>

definition speed_of ::
  "exposure \<Rightarrow> real \<Rightarrow> nat \<Rightarrow> nat \<Rightarrow> error + pyfloat option" where
  "speed_of self distance point_ind other_point =
     (if speed_enabled self then
        (if length (points self) \<le> point_ind then Inl IndexError
         else Inr (map_option PyFloat (speed (points self ! point_ind))))
      else if time_enabled self then
        (case avg_speed_per_point self distance point_ind other_point of
           Inl e \<Rightarrow> Inl e
         | Inr s \<Rightarrow> Inr (Some (NpFloat s)))
      else Inr (Some (PyFloat 0)))"

text \<open>
  Lines 209-212: the exposure time. \<open>None != 0\<close> is true, so an absent speed reaches the
  division; at speed 0 the time is the difference of the two timestamps. A recorded speed
  is a Python float and is not zero where it divides; an average speed is a numpy float,
  and dividing by \<open>inf\<close> gives 0, by \<open>nan\<close> gives \<open>nan\<close>.
\<close>

definition cam_time_of ::
  "exposure \<Rightarrow> nat \<Rightarrow> pyfloat option \<Rightarrow> nat \<Rightarrow> nat \<Rightarrow> error + pyfloat" where
  "cam_time_of self pseudo_points sp point_ind other_point =
     (case sp of
        None \<Rightarrow> Inl TypeError
      | Some s \<Rightarrow>
          if xne0 (fval s) then
            (case s of
               PyFloat v \<Rightarrow> Inr (PyFloat ((real pseudo_points / (1 / resolution)) / v))
             | NpFloat v \<Rightarrow>
                 Inr (NpFloat (xdiv (Fin (real pseudo_points / (1 / resolution))) v)))
          else if length (points self) \<le> other_point \<or> length (points self) \<le> point_ind
          then Inl IndexError
          else (case time (points self ! other_point) of
                  None \<Rightarrow> Inl AttributeError
                | Some t_other \<Rightarrow>
                    (case time (points self ! point_ind) of
                       None \<Rightarrow> Inl AttributeError
                     | Some t_point \<Rightarrow> Inr (NpFloat (Fin \<bar>t_other - t_point\<bar>)))))"

text \<open>
  Lines 191-220, the body of \<open>for cam in cameras.keys()\<close>, on the state \<open>self\<close> with the
  running \<open>highest_dist\<close> and \<open>highest_time\<close>.
\<close>

definition camera_body ::
  "builtins \<Rightarrow> bool \<Rightarrow> nat \<Rightarrow> nat \<Rightarrow> real \<Rightarrow> real \<Rightarrow> nat \<Rightarrow> nat
   \<Rightarrow> exposure \<times> real \<times> pyfloat \<Rightarrow> error + exposure \<times> real \<times> pyfloat" where
  "camera_body B backward point_ind other_point course distance n_points cam st =
     (let (self, highest_dist, highest_time) = st;
          self = (if cam_expo self cam = None
                  then self\<lparr>cam_expo := (cam_expo self)
                         (cam \<mapsto> \<lparr>ce_points = [], ce_dist = 0, ce_time = Fin 0\<rparr>)\<rparr>
                  else self)
      in case cam_expo self cam of
           None \<Rightarrow> Inl KeyError
         | Some entry \<Rightarrow>
             if \<not> backward \<and> point_ind + 1 \<in> set (ce_points entry)
             then Inr (self, highest_dist, highest_time)
             else
               let entry = (if point_ind \<notin> set (ce_points entry)
                            then entry\<lparr>ce_points := ce_points entry @ [point_ind]\<rparr>
                            else entry);
                   self = self\<lparr>cam_expo := (cam_expo self)(cam \<mapsto> entry)\<rparr>
               in case pseudo_points_of B self backward point_ind n_points cam course of
                    Inl e \<Rightarrow> Inl e
                  | Inr pseudo_points \<Rightarrow>
                      (case speed_of self distance point_ind other_point of
                         Inl e \<Rightarrow> Inl e
                       | Inr sp \<Rightarrow>
                           (case cam_time_of self pseudo_points sp point_ind other_point of
                              Inl e \<Rightarrow> Inl e
                            | Inr cam_time \<Rightarrow>
                                let highest_time = (if xless (fval highest_time) (fval cam_time)
                                                    then cam_time else highest_time);
                                    cam_dist = real pseudo_points / (1 / resolution);
                                    highest_dist = (if highest_dist < cam_dist
                                                    then cam_dist else highest_dist);
                                    entry = entry\<lparr>ce_time := xadd (ce_time entry)
                                                                    (xround2 (fval cam_time)),
                                                  ce_dist := ce_dist entry + cam_dist\<rparr>
                                in Inr (self\<lparr>cam_expo := (cam_expo self)(cam \<mapsto> entry)\<rparr>,
                                        highest_dist, highest_time))))"

fun cameras_loop ::
  "builtins \<Rightarrow> bool \<Rightarrow> nat \<Rightarrow> nat \<Rightarrow> real \<Rightarrow> real \<Rightarrow> nat \<Rightarrow> nat list
   \<Rightarrow> exposure \<times> real \<times> pyfloat \<Rightarrow> error + exposure \<times> real \<times> pyfloat" where
  "cameras_loop B backward point_ind other_point course distance n_points [] st = Inr st"
| "cameras_loop B backward point_ind other_point course distance n_points (cam # rest) st =
     (case camera_body B backward point_ind other_point course distance n_points cam st of
        Inl e \<Rightarrow> Inl e
      | Inr st \<Rightarrow>
          cameras_loop B backward point_ind other_point course distance n_points rest st)"

text \<open>
  Lines 171-223, the body of \<open>for point_ind, cameras in self.cameras_per_point.items()\<close>,
  on \<open>self\<close> with the running \<open>total_meters\<close> and \<open>total_seconds\<close>.
\<close>

definition point_body ::
  "builtins \<Rightarrow> bool \<Rightarrow> nat \<times> nat list \<Rightarrow> exposure \<times> real \<times> pyfloat
   \<Rightarrow> error + exposure \<times> real \<times> pyfloat" where
  "point_body B backward item st =
     (let (point_ind, cameras) = item;
          (self, total_meters, total_seconds) = st
      in if (if backward then point_ind = 0
             else int point_ind = int (length (points self)) - 1)
         then Inr st
         else
           let other_point = (if backward then point_ind - 1 else point_ind + 1)
           in if length (points self) \<le> point_ind \<or> length (points self) \<le> other_point
              then Inl IndexError
              else
                let course = get_bearing (latitude (points self ! point_ind))
                                         (longitude (points self ! point_ind))
                                         (latitude (points self ! other_point))
                                         (longitude (points self ! other_point));
                    distance = quick_distance (latitude (points self ! point_ind))
                                              (longitude (points self ! point_ind))
                                              (latitude (points self ! other_point))
                                              (longitude (points self ! other_point));
                    n_points = (if resolution < distance
                                then nat (rint (distance / resolution)) else 1)
                in case cameras_loop B backward point_ind other_point course distance
                          n_points cameras (self, 0, PyFloat 0) of
                     Inl e \<Rightarrow> Inl e
                   | Inr (self, highest_dist, highest_time) \<Rightarrow>
                       Inr (self, total_meters + highest_dist,
                            fadd total_seconds highest_time))"

fun points_loop ::
  "builtins \<Rightarrow> bool \<Rightarrow> (nat \<times> nat list) list \<Rightarrow> exposure \<times> real \<times> pyfloat
   \<Rightarrow> error + exposure \<times> real \<times> pyfloat" where
  "points_loop B backward [] st = Inr st"
| "points_loop B backward (item # rest) st =
     (case point_body B backward item st of
        Inl e \<Rightarrow> Inl e
      | Inr st \<Rightarrow> points_loop B backward rest st)"

text \<open>\<open>calculate_direction\<close> returns \<open>self\<close> as it leaves it, with \<open>(total_meters, total_seconds)\<close>.\<close>

definition calculate_direction ::
  "builtins \<Rightarrow> exposure \<Rightarrow> bool \<Rightarrow> error + exposure \<times> real \<times> pyfloat" where
  "calculate_direction B self backward =
     points_loop B backward (cameras_per_point self) (self, 0, PyFloat 0)"

definition time_and_distance_in_camera_fov ::
  "builtins \<Rightarrow> exposure \<Rightarrow> error + exposure \<times> real \<times> pyfloat" where
  "time_and_distance_in_camera_fov B self =
     (case calculate_direction B self True of
        Inl e \<Rightarrow> Inl e
      | Inr (self, back_d, back_t) \<Rightarrow>
          (case calculate_direction B self False of
             Inl e \<Rightarrow> Inl e
           | Inr (self, front_d, front_t) \<Rightarrow>
               Inr (self, back_d + front_d, fadd back_t front_t)))"

subsection \<open>Statistics and the report of one segment\<close>

definition calc_distance_stats :: "exposure \<Rightarrow> real \<times> real" where
  "calc_distance_stats self =
     (let ds = distances self; n = length ds; sorted_ds = sort ds
      in if ds = [] then (0, 0)
         else (sum_list ds / real n,
               if odd n then sorted_ds ! (n div 2)
               else (sorted_ds ! (n div 2 - 1) + sorted_ds ! (n div 2)) / 2))"

record report =
  report_total_distance :: real
  number_of_unique_cams :: nat
  exposure_distance :: real
  dist_percentage :: xreal
  camera_distance_avg :: real
  camera_distance_median :: real
  avg_speed :: "xreal option"
  time_percentage :: "xreal option"
  exposure_time :: "xreal option"
  fov_radius :: "int option"
  cameras :: "nat \<rightharpoonup> camera \<times> xreal \<times> real"

text \<open>
  Line 287, \<open>time / exposure.total_time.total_seconds() * 100\<close>: the total time in
  seconds is a Python float. When the exposure time is a Python float too, a zero total
  raises ZeroDivisionError; when it is a numpy float, the division is numpy's.
\<close>

definition time_percentage_of :: "pyfloat \<Rightarrow> real \<Rightarrow> error + xreal" where
  "time_percentage_of tm total_seconds =
     (case tm of
        PyFloat v \<Rightarrow>
          if total_seconds = 0 then Inl ZeroDivisionError
          else Inr (Fin (v / total_seconds * 100))
      | NpFloat v \<Rightarrow> Inr (xscale (xdiv v (Fin total_seconds)) 100))"

text \<open>
  The body of the loop of \<open>main\<close> for one segment; the file name and the track and
  segment numbers of the report are left out. \<open>dist\<close> (here \<open>dist_m\<close>) is a Python
  float. With fewer than two points the loop of \<open>get_total_distance\<close> never runs, the
  total distance is the int 0 and line 270 raises ZeroDivisionError; otherwise the total
  distance is a numpy float and the divisions of lines 270 and 288 are numpy's. A camera
  of the report is the camera's dictionary with the values stored under
  \<open>time_in_camera_fov\<close> and \<open>distance_in_camera_fov\<close>.
\<close>

definition main_segment ::
  "builtins \<Rightarrow> int option \<Rightarrow> string list list \<Rightarrow> point list \<Rightarrow> error + report" where
  "main_segment B args_radius camfile segment =
     (case init B args_radius camfile segment of
        Inl e \<Rightarrow> Inl e
      | Inr exposure \<Rightarrow>
          (case time_and_distance_in_camera_fov B exposure of
             Inl e \<Rightarrow> Inl e
           | Inr (exposure, dist_m, tm) \<Rightarrow>
               let (avg, median) = calc_distance_stats exposure
               in if length (points exposure) < 2 then Inl ZeroDivisionError
                  else
                    let percentage =
                          xscale (xdiv (Fin dist_m) (Fin (total_distance exposure))) 100
                    in case (if time_enabled exposure
                             then map_sum id Some
                                    (time_percentage_of tm (total_time exposure))
                             else Inr None) of
                         Inl e \<Rightarrow> Inl e
                       | Inr time_pct \<Rightarrow>
                           if \<exists>cam \<in> unique_cameras exposure.
                                cam_expo exposure cam = None
                                \<or> map_of (cams exposure) cam = None
                           then Inl KeyError
                           else Inr
                             \<lparr>report_total_distance = total_distance exposure,
                              number_of_unique_cams = cam_amount exposure,
                              exposure_distance = dist_m,
                              dist_percentage = xround2 percentage,
                              camera_distance_avg = avg,
                              camera_distance_median = median,
                              avg_speed =
                                (if time_enabled exposure
                                 then Some (xround2 (xscale
                                        (xdiv (Fin (total_distance exposure))
                                              (Fin (total_time exposure))) 3.6))
                                 else None),
                              time_percentage = map_option xround2 time_pct,
                              exposure_time =
                                (if time_enabled exposure then Some (fval tm) else None),
                              fov_radius =
                                (case radius exposure of
                                   None \<Rightarrow> None
                                 | Some r \<Rightarrow> if r \<noteq> 0 then Some r else None),
                              cameras =
                                (\<lambda>cam. if cam \<in> unique_cameras exposure
                                   then (case (map_of (cams exposure) cam,
                                               cam_expo exposure cam) of
                                           (Some c, Some entry) \<Rightarrow>
                                             Some (c, ce_time entry, ce_dist entry)
                                         | _ \<Rightarrow> None)
                                   else None)\<rparr>))"

subsection \<open>Predicates used to state the properties\<close>

text \<open>The second state is the first but for its \<open>cam_expo\<close>.\<close>

definition same_but_expo :: "exposure \<Rightarrow> exposure \<Rightarrow> bool" where
  "same_but_expo s s' = (\<exists>ce. s' = s\<lparr>cam_expo := ce\<rparr>)"

text \<open>No camera's list of attributed points holds an index twice.\<close>

definition expo_distinct :: "exposure \<Rightarrow> bool" where
  "expo_distinct self = (\<forall>c e. cam_expo self c = Some e \<longrightarrow> distinct (ce_points e))"

text \<open>The point lies beyond the effective radius of the camera.\<close>

definition outside_camera :: "builtins \<Rightarrow> int option \<Rightarrow> camera \<Rightarrow> real \<Rightarrow> real \<Rightarrow> bool" where
  "outside_camera B rad cam lat lon =
     (\<exists>clat clon fov. py_float B (get cam ''latitude'') = Inr clat
        \<and> py_float B (get cam ''longitude'') = Inr clon
        \<and> effective_radius B rad cam = Inr fov
        \<and> fov < quick_distance lat lon clat clon)"

text \<open>
  Every camera of \<open>unique_cameras\<close> is a key of \<open>cams\<close> and stands in the prediction
  of some point.
\<close>

definition cameras_known :: "exposure \<Rightarrow> bool" where
  "cameras_known self =
     (\<forall>cam \<in> unique_cameras self.
        map_of (cams self) cam \<noteq> None
        \<and> (\<exists>item \<in> set (cameras_per_point self). cam \<in> set (snd item)))"

subsection \<open>Catalogs and tracks of the concrete runs\<close>

text \<open>A catalog with no camera, and one with a round camera of radius 10 at \<open>(0, 0)\<close>.\<close>

definition no_cameras :: "string list list" where
  "no_cameras = [[''latitude'', ''longitude'']]"

definition one_camera :: "string list list" where
  "one_camera = [[''latitude'', ''longitude''], [''0'', ''0'']]"

definition camera_at_origin :: camera where
  "camera_at_origin = [''latitude'' \<mapsto> PStr ''0'', ''longitude'' \<mapsto> PStr ''0'']"

text \<open>Two points 0.111319 m apart, both at the camera, with speed and no timestamp.\<close>

definition short_track :: "point list" where
  "short_track =
     [\<lparr>latitude = 0, longitude = 0, time = None, speed = Some 1\<rparr>,
      \<lparr>latitude = 0.000001, longitude = 0, time = None, speed = Some 1\<rparr>]"

definition short_state :: exposure where
  "short_state =
     \<lparr>radius = None, accept_range = 1, cams = [(0, camera_at_origin)],
      time_enabled = False, points = short_track, distances = [0, 0.111319],
      cameras_per_point = [(0, [0]), (1, [0])], unique_cameras = {0}, cam_amount = 1,
      cam_expo = Map.empty, speed_enabled = True, total_distance = 0.111319, total_time = 0\<rparr>"

definition seen_once :: "nat \<rightharpoonup> cam_exposure" where
  "seen_once = [0 \<mapsto> \<lparr>ce_points = [1], ce_dist = 0.5, ce_time = Fin 0.5\<rparr>]"

text \<open>
  Three points 0.111319 m apart, the first two with one timestamp, the third a second
  later, all without a speed.
\<close>

definition stalled_track :: "point list" where
  "stalled_track =
     [\<lparr>latitude = 0, longitude = 0, time = Some 0, speed = None\<rparr>,
      \<lparr>latitude = 0.000001, longitude = 0, time = Some 0, speed = None\<rparr>,
      \<lparr>latitude = 0.000002, longitude = 0, time = Some 1, speed = None\<rparr>]"

definition stalled_state :: exposure where
  "stalled_state =
     \<lparr>radius = None, accept_range = 1, cams = [(0, camera_at_origin)],
      time_enabled = True, points = stalled_track, distances = [0, 0.111319, 0.222638],
      cameras_per_point = [(0, [0]), (1, [0]), (2, [0])], unique_cameras = {0}, cam_amount = 1,
      cam_expo = Map.empty, speed_enabled = False, total_distance = 0.222638, total_time = 1\<rparr>"

definition seen_twice :: "nat \<rightharpoonup> cam_exposure" where
  "seen_twice = [0 \<mapsto> \<lparr>ce_points = [1, 2], ce_dist = 1, ce_time = Fin 4.49\<rparr>]"



text \<open>
  A single point; two points at one place ten seconds apart; two points 0.111319 m apart
  with one timestamp.
\<close>

definition single_track :: "point list" where
  "single_track = [\<lparr>latitude = 0, longitude = 0, time = Some 0, speed = None\<rparr>]"

definition standing_track :: "point list" where
  "standing_track =
     [\<lparr>latitude = 0, longitude = 0, time = Some 0, speed = None\<rparr>,
      \<lparr>latitude = 0, longitude = 0, time = Some 10, speed = None\<rparr>]"

definition instant_track :: "point list" where
  "instant_track =
     [\<lparr>latitude = 0, longitude = 0, time = Some 0, speed = None\<rparr>,
      \<lparr>latitude = 0.000001, longitude = 0, time = Some 0, speed = None\<rparr>]"

definition instant_state :: exposure where
  "instant_state =
     \<lparr>radius = None, accept_range = 1, cams = [(0, camera_at_origin)],
      time_enabled = True, points = instant_track, distances = [0, 0.111319],
      cameras_per_point = [(0, [0]), (1, [0])], unique_cameras = {0}, cam_amount = 1,
      cam_expo = Map.empty, speed_enabled = False, total_distance = 0.111319, total_time = 0\<rparr>"

definition seen_instant :: "nat \<rightharpoonup> cam_exposure" where
  "seen_instant = [0 \<mapsto> \<lparr>ce_points = [1], ce_dist = 0.5, ce_time = Fin 0\<rparr>]"

definition standing_state :: exposure where
  "standing_state =
     instant_state\<lparr>points := standing_track, distances := [0, 0],
                   total_distance := 0, total_time := 10\<rparr>"

definition seen_standing :: "nat \<rightharpoonup> cam_exposure" where
  "seen_standing = [0 \<mapsto> \<lparr>ce_points = [1], ce_dist = 0.5, ce_time = Fin 10\<rparr>]"

text \<open>Two points 111 m and 223 m north of the camera, outside its radius.\<close>

definition far_track :: "point list" where
  "far_track =
     [\<lparr>latitude = 0.001, longitude = 0, time = None, speed = None\<rparr>,
      \<lparr>latitude = 0.002, longitude = 0, time = None, speed = None\<rparr>]"

definition far_state :: exposure where
  "far_state = (new_exposure None [(0, camera_at_origin)] far_track)
                 \<lparr>time_enabled := False, distances := [111.319, 222.638]\<rparr>"

text \<open>Two points on the equator, a thousandth of a degree of longitude apart.\<close>

definition equator_track :: "point list" where
  "equator_track =
     [\<lparr>latitude = 0, longitude = 0, time = None, speed = None\<rparr>,
      \<lparr>latitude = 0, longitude = 0.001, time = None, speed = None\<rparr>]"

subsection \<open>The angular range as the specification words it\<close>

text \<open>
  The specification's reading of the directed test: the bearing lies within
  \<open>[direction - angle/2, direction + angle/2]\<close> taken modulo 360, that is, some whole
  number of turns brings the bearing into the interval. This definition follows the
  specification, not the code; it is only compared with the code.
\<close>

definition spec_in_angular_range :: "real \<Rightarrow> int \<Rightarrow> real \<Rightarrow> bool" where
  "spec_in_angular_range direction angle bearing =
     (\<exists>k::int. direction - of_int angle / 2 \<le> bearing + 360 * of_int k
              \<and> bearing + 360 * of_int k \<le> direction + of_int angle / 2)"

section \<open>Properties\<close>

subsection \<open>Auxiliary facts\<close>

lemma get_bearing_due_north:
  assumes "0 < lat" "lat < 90"
  shows "get_bearing 0 0 lat 0 = 0"
proof -
  let ?x = "deg2rad lat / 2 + pi / 4"
  have "lat * pi < 90 * pi" using assms by (intro mult_strict_right_mono) auto
  then have x2: "?x < pi / 2" unfolding deg2rad_def by linarith
  have "0 < lat * pi" using assms by simp
  then have x1: "pi / 4 < ?x" unfolding deg2rad_def by linarith
  have "tan (pi / 4) < tan ?x" using x1 x2 by (intro tan_monotone) auto
  then have "1 < tan ?x" by (simp add: tan_45)
  then have "0 < ln (tan ?x)" by (rule ln_gt_zero)
  then show ?thesis
    by (simp add: get_bearing_def Let_def deg2rad_def arctan2_def degrees_def py_fmod_def tan_45)
qed

lemma load_row_strings:
  "load_row columns i row cam = Inr cam' \<Longrightarrow> (\<forall>k v. cam k = Some v \<longrightarrow> (\<exists>s. v = PStr s))
   \<Longrightarrow> cam' k = Some v \<Longrightarrow> \<exists>s. v = PStr s"
  by (induction columns i row cam rule: load_row.induct) (auto split: if_splits)

lemma load_rows_strings:
  "load_rows columns index rows = Inr cs \<Longrightarrow> (i, cam) \<in> set cs \<Longrightarrow> cam k = Some v
   \<Longrightarrow> \<exists>s. v = PStr s"
proof (induction rows arbitrary: index cs)
  case Nil
  then show ?case by simp
next
  case (Cons row rows)
  then show ?case
    by (auto split: sum.splits dest: load_row_strings)
qed

lemma load_cameras_strings:
  "load_cameras reader = Inr cs \<Longrightarrow> (i, cam) \<in> set cs \<Longrightarrow> cam k = Some v
   \<Longrightarrow> \<exists>s. v = PStr s"
  by (auto simp: load_cameras_def split: list.splits dest: load_rows_strings)

lemma loaded_direction_not_number:
  assumes "load_cameras reader = Inr cs" "(i, cam) \<in> set cs"
  shows "py_number (get_or cam ''direction'' PNone) = Inl TypeError"
proof (cases "cam ''direction''")
  case None
  then show ?thesis by (simp add: get_or_def)
next
  case (Some v)
  with load_cameras_strings[OF assms] obtain s where "v = PStr s" by blast
  with Some show ?thesis by (simp add: get_or_def)
qed

lemmas decimal_defs = decimal_def dec_float_def dec_int_def dec_nat_def digit_of_def

lemmas fov_defs = is_in_fov_def check_dist_to_cam_def effective_radius_def directed_test_def
  get_def get_or_def

lemma quick_distance_same_longitude:
  "quick_distance lat0 lon lat1 lon = 111319 * \<bar>lat1 - lat0\<bar>"
  by (simp add: quick_distance_def real_sqrt_abs2)

lemma quick_distance_on_equator:
  "quick_distance 0 lon0 0 lon1 = 111319 * \<bar>lon1 - lon0\<bar>"
  by (simp add: quick_distance_def real_sqrt_abs2)

lemmas run_defs = init_def new_exposure_def load_cameras_def track_route_def
  point_in_camera_fov_def fov_defs decimal_defs quick_distance_same_longitude
  get_total_distance_def Let_def

lemmas pass_defs = calculate_direction_def point_body_def quick_distance_same_longitude
  resolution_def camera_body_def pseudo_points_of_def speed_of_def cam_time_of_def
  avg_speed_per_point_def round2_def rint_def Let_def

subsection \<open>What the two passes leave unchanged\<close>

lemma same_but_expo_refl [simp]: "same_but_expo s s"
  unfolding same_but_expo_def by (rule exI[of _ "cam_expo s"]) simp

lemma same_but_expo_update [simp]: "same_but_expo s (s\<lparr>cam_expo := ce\<rparr>)"
  unfolding same_but_expo_def by blast

lemma same_but_expo_update2 [simp]:
  "same_but_expo s (s\<lparr>cam_expo := ce\<rparr>\<lparr>cam_expo := ce'\<rparr>)"
  unfolding same_but_expo_def by auto

lemma same_but_expo_trans:
  "same_but_expo s s1 \<Longrightarrow> same_but_expo s1 s2 \<Longrightarrow> same_but_expo s s2"
  unfolding same_but_expo_def by auto

lemma fval_fadd [simp]: "fval (fadd a b) = xadd (fval a) (fval b)"
  by (cases a; cases b) simp_all

lemma fin_nonneg_zero [simp]: "fin_nonneg (PyFloat 0)"
  by (simp add: fin_nonneg_def)

lemma fin_nonneg_fadd: "fin_nonneg a \<Longrightarrow> fin_nonneg b \<Longrightarrow> fin_nonneg (fadd a b)"
  by (auto simp: fin_nonneg_def)

lemma xdiv_fin_ne0: "xne0 v \<Longrightarrow> xdiv (Fin a) v = NaN \<or> (\<exists>c. xdiv (Fin a) v = Fin c)"
  by (cases v) auto

lemma cam_time_of_value:
  assumes "cam_time_of self pseudo_points sp point_ind other_point = Inr ct"
  shows "fval ct = NaN \<or> (\<exists>c. fval ct = Fin c)"
proof (cases sp)
  case None
  with assms show ?thesis by (simp add: cam_time_of_def)
next
  case (Some s)
  show ?thesis
  proof (cases "xne0 (fval s)")
    case False
    with assms Some show ?thesis
      by (auto simp: cam_time_of_def split: option.splits if_splits)
  next
    case True
    show ?thesis
    proof (cases s)
      case (PyFloat v)
      with assms Some True show ?thesis by (auto simp: cam_time_of_def)
    next
      case (NpFloat v)
      with assms Some True have "ct = NpFloat (xdiv (Fin (real pseudo_points / (1 / resolution))) v)"
        by (auto simp: cam_time_of_def)
      with xdiv_fin_ne0[of v] True NpFloat show ?thesis by auto
    qed
  qed
qed

lemma highest_time_step:
  assumes "fin_nonneg t" and "fval ct = NaN \<or> (\<exists>c. fval ct = Fin c)"
  shows "fin_nonneg (if xless (fval t) (fval ct) then ct else t)"
  using assms by (auto simp: fin_nonneg_def)

lemma camera_body_frame:
  assumes "camera_body B backward point_ind other_point course distance n_points cam (self, h, t)
           = Inr (self', h', t')"
  shows "same_but_expo self self' \<and> h \<le> h' \<and> (fin_nonneg t \<longrightarrow> fin_nonneg t')"
proof (cases "(self', h', t') = (if cam_expo self cam = None
                  then self\<lparr>cam_expo := (cam_expo self)
                         (cam \<mapsto> \<lparr>ce_points = [], ce_dist = 0, ce_time = Fin 0\<rparr>)\<rparr>
                  else self, h, t)")
  case True
  then show ?thesis by (auto split: if_splits)
next
  case False
  with assms obtain s1 e pp sp ct where
    ct: "cam_time_of s1 pp sp point_ind other_point = Inr ct"
    and t': "t' = (if xless (fval t) (fval ct) then ct else t)"
    and h': "h \<le> h'"
    and s': "same_but_expo self self'"
    by (auto simp: camera_body_def Let_def split: if_splits option.splits sum.splits)
  from highest_time_step[OF _ cam_time_of_value[OF ct]] t'
  have "fin_nonneg t \<longrightarrow> fin_nonneg t'" by simp
  with h' s' show ?thesis by simp
qed

lemma cameras_loop_frame:
  "cameras_loop B backward point_ind other_point course distance n_points cs (self, h, t)
     = Inr (self', h', t')
   \<Longrightarrow> same_but_expo self self' \<and> h \<le> h' \<and> (fin_nonneg t \<longrightarrow> fin_nonneg t')"
proof (induction cs arbitrary: self h t)
  case Nil
  then show ?case by auto
next
  case (Cons cam rest)
  from Cons.prems(1) obtain s1 h1 t1 where
    b: "camera_body B backward point_ind other_point course distance n_points cam (self, h, t)
        = Inr (s1, h1, t1)"
    and l: "cameras_loop B backward point_ind other_point course distance n_points rest (s1, h1, t1)
        = Inr (self', h', t')"
    by (auto split: sum.splits)
  from camera_body_frame[OF b] Cons.IH[OF l] have
    "same_but_expo self s1" "same_but_expo s1 self'"
    "h \<le> h1" "h1 \<le> h'" "fin_nonneg t \<longrightarrow> fin_nonneg t1" "fin_nonneg t1 \<longrightarrow> fin_nonneg t'"
    by simp_all
  then show ?case by (auto intro: same_but_expo_trans)
qed

lemma point_body_frame:
  assumes "point_body B backward item (self, m, t) = Inr (self', m', t')"
  shows "same_but_expo self self' \<and> m \<le> m' \<and> (fin_nonneg t \<longrightarrow> fin_nonneg t')"
proof (cases "point_body B backward item (self, m, t) = Inr (self, m, t)")
  case True
  with assms show ?thesis by auto
next
  case False
  obtain point_ind cameras where item: "item = (point_ind, cameras)" by (cases item)
  from False assms obtain other course distance n hd ht where
    l: "cameras_loop B backward point_ind other course distance n cameras (self, 0, PyFloat 0)
        = Inr (self', hd, ht)"
    and m': "m' = m + hd" and t': "t' = fadd t ht"
    by (auto simp: point_body_def item Let_def split: if_splits sum.splits)
  from cameras_loop_frame[OF l] have "same_but_expo self self'" "0 \<le> hd" "fin_nonneg ht"
    by simp_all
  with m' t' show ?thesis by (auto intro: fin_nonneg_fadd)
qed

lemma points_loop_frame:
  "points_loop B backward items (self, m, t) = Inr (self', m', t')
   \<Longrightarrow> same_but_expo self self' \<and> m \<le> m' \<and> (fin_nonneg t \<longrightarrow> fin_nonneg t')"
proof (induction items arbitrary: self m t)
  case Nil
  then show ?case by auto
next
  case (Cons item rest)
  from Cons.prems(1) obtain s1 m1 t1 where
    b: "point_body B backward item (self, m, t) = Inr (s1, m1, t1)"
    and l: "points_loop B backward rest (s1, m1, t1) = Inr (self', m', t')"
    by (auto split: sum.splits)
  from point_body_frame[OF b] Cons.IH[OF l] show ?case by (auto intro: same_but_expo_trans)
qed

lemma calculate_direction_frame:
  assumes "calculate_direction B self backward = Inr (self', m, t)"
  shows "same_but_expo self self' \<and> 0 \<le> m \<and> fin_nonneg t"
  using points_loop_frame[OF assms[unfolded calculate_direction_def]] by simp

lemma time_and_distance_frame:
  assumes "time_and_distance_in_camera_fov B self = Inr (self', m, t)"
  shows "same_but_expo self self' \<and> 0 \<le> m \<and> fin_nonneg t"
proof -
  from assms obtain s1 bd bt fd ft where
    b: "calculate_direction B self True = Inr (s1, bd, bt)"
    and f: "calculate_direction B s1 False = Inr (self', fd, ft)"
    and m: "m = bd + fd" and t: "t = fadd bt ft"
    by (auto simp: time_and_distance_in_camera_fov_def split: sum.splits)
  from calculate_direction_frame[OF b] calculate_direction_frame[OF f] m t
  show ?thesis by (auto intro: same_but_expo_trans fin_nonneg_fadd)
qed

lemma same_but_expo_fields:
  assumes "same_but_expo s s'"
  shows "points s' = points s" "cams s' = cams s" "unique_cameras s' = unique_cameras s"
    "cameras_per_point s' = cameras_per_point s" "time_enabled s' = time_enabled s"
    "total_distance s' = total_distance s" "total_time s' = total_time s"
    "radius s' = radius s" "cam_amount s' = cam_amount s" "distances s' = distances s"
  using assms by (auto simp: same_but_expo_def)

lemma pseudo_points_of_cam_expo [simp]:
  "pseudo_points_of B (self\<lparr>cam_expo := ce\<rparr>) backward point_ind n_points cam course
   = pseudo_points_of B self backward point_ind n_points cam course"
proof -
  have "test_points_loop B (self\<lparr>cam_expo := ce\<rparr>) cam course n lat lon r
        = test_points_loop B self cam course n lat lon r" for n lat lon r
    by (induction n arbitrary: lat lon r) (auto split: option.splits sum.splits prod.splits)
  then show ?thesis
    by (simp add: pseudo_points_of_def test_points_def)
qed

lemma rint_nonneg: "0 \<le> x \<Longrightarrow> 0 \<le> rint x"
  by (auto simp: rint_def Let_def)

lemma round2_nonneg: "0 \<le> x \<Longrightarrow> 0 \<le> round2 x"
  by (simp add: round2_def rint_nonneg)

subsection \<open>The attributed points stay distinct\<close>

lemma camera_body_distinct:
  assumes "camera_body B backward point_ind other_point course distance n_points cam (self, hd0, ht0)
           = Inr (self', hd1, ht1)"
    and "expo_distinct self"
  shows "expo_distinct self'"
  using assms unfolding expo_distinct_def
  by (auto simp: camera_body_def Let_def split: if_splits option.splits sum.splits)

lemma cameras_loop_distinct:
  "cameras_loop B backward point_ind other_point course distance n_points cs (self, hd0, ht0)
     = Inr (self', hd1, ht1)
   \<Longrightarrow> expo_distinct self \<Longrightarrow> expo_distinct self'"
proof (induction cs arbitrary: self hd0 ht0)
  case Nil
  then show ?case by simp
next
  case (Cons cam rest)
  from Cons.prems(1) obtain s1 h1 t1 where
    b: "camera_body B backward point_ind other_point course distance n_points cam (self, hd0, ht0)
        = Inr (s1, h1, t1)"
    and l: "cameras_loop B backward point_ind other_point course distance n_points rest (s1, h1, t1)
        = Inr (self', hd1, ht1)"
    by (auto split: sum.splits)
  from Cons.IH[OF l camera_body_distinct[OF b Cons.prems(2)]] show ?case .
qed

lemma point_body_distinct:
  assumes "point_body B backward item (self, tm, ts) = Inr (self', tm', ts')"
    and "expo_distinct self"
  shows "expo_distinct self'"
  using assms
  by (auto simp: point_body_def Let_def split: if_splits sum.splits prod.splits
           dest: cameras_loop_distinct)

lemma points_loop_distinct:
  "points_loop B backward items (self, tm, ts) = Inr (self', tm', ts')
   \<Longrightarrow> expo_distinct self \<Longrightarrow> expo_distinct self'"
proof (induction items arbitrary: self tm ts)
  case Nil
  then show ?case by simp
next
  case (Cons item rest)
  from Cons.prems(1) obtain s1 m1 t1 where
    b: "point_body B backward item (self, tm, ts) = Inr (s1, m1, t1)"
    and l: "points_loop B backward rest (s1, m1, t1) = Inr (self', tm', ts')"
    by (auto split: sum.splits)
  from Cons.IH[OF l point_body_distinct[OF b Cons.prems(2)]] show ?case .
qed

subsection \<open>The membership pass on points outside every camera\<close>

lemma is_in_fov_outside:
  assumes "outside_camera B rad cam lat lon"
  shows "\<exists>d. is_in_fov B rad cam lat lon 0 = Inr (d, False)"
  using assms
  by (auto simp: outside_camera_def is_in_fov_def check_dist_to_cam_def Let_def)

lemma point_in_camera_fov_loop_outside:
  "\<forall>c \<in> set cs. outside_camera B rad (snd c) lat lon
   \<Longrightarrow> \<exists>ds. point_in_camera_fov_loop B rad cs lat lon = Inr ([], ds)"
proof (induction cs)
  case Nil
  then show ?case by simp
next
  case (Cons c cs)
  from Cons.prems have "outside_camera B rad (snd c) lat lon" by simp
  from is_in_fov_outside[OF this] obtain d where
    d: "is_in_fov B rad (snd c) lat lon 0 = Inr (d, False)" by blast
  from Cons obtain ds where
    "point_in_camera_fov_loop B rad cs lat lon = Inr ([], ds)" by auto
  with d show ?case by simp
qed

lemma track_route_loop_outside:
  "\<forall>p \<in> set pts. \<forall>c \<in> set (cams self).
      outside_camera B (radius self) (snd c) (latitude p) (longitude p)
   \<Longrightarrow> \<exists>self'. track_route_loop B self index pts = Inr self'
        \<and> cameras_per_point self' = cameras_per_point self
        \<and> unique_cameras self' = unique_cameras self
        \<and> points self' = points self
        \<and> cam_expo self' = cam_expo self"
proof (induction pts arbitrary: self index)
  case Nil
  then show ?case by simp
next
  case (Cons p pts)
  let ?s1 = "if time p = None then self\<lparr>time_enabled := False\<rparr> else self"
  from Cons.prems have
    "\<forall>c \<in> set (cams self). outside_camera B (radius self) (snd c) (latitude p) (longitude p)"
    by simp
  from point_in_camera_fov_loop_outside[OF this] obtain ds where
    "point_in_camera_fov_loop B (radius self) (cams self) (latitude p) (longitude p) = Inr ([], ds)"
    by blast
  moreover have "radius ?s1 = radius self" "cams ?s1 = cams self" by simp_all
  ultimately have ds: "point_in_camera_fov B ?s1 (latitude p) (longitude p) = Inr ([], ds)"
    by (simp only: point_in_camera_fov_def)
  let ?s2 = "if speed p \<noteq> None \<and> speed p \<noteq> Some 0 then ?s1\<lparr>speed_enabled := True\<rparr> else ?s1"
  let ?s3 = "?s2\<lparr>distances := distances ?s2 @ ds\<rparr>"
  have step: "track_route_loop B self index (p # pts) = track_route_loop B ?s3 (Suc index) pts"
    using ds by (simp add: Let_def)
  have pre: "\<forall>q \<in> set pts. \<forall>c \<in> set (cams ?s3).
               outside_camera B (radius ?s3) (snd c) (latitude q) (longitude q)"
    using Cons.prems by simp
  from Cons.IH[OF pre, of "Suc index"] obtain self' where
    r: "track_route_loop B ?s3 (Suc index) pts = Inr self'"
    and f: "cameras_per_point self' = cameras_per_point ?s3"
       "unique_cameras self' = unique_cameras ?s3"
       "points self' = points ?s3" "cam_expo self' = cam_expo ?s3"
    by blast
  from f have "cameras_per_point self' = cameras_per_point self"
       "unique_cameras self' = unique_cameras self"
       "points self' = points self" "cam_expo self' = cam_expo self"
    by (auto split: if_splits)
  with r step show ?case by simp
qed

lemma track_route_loop_times:
  "track_route_loop B self index pts = Inr self'
   \<Longrightarrow> time_enabled self' \<Longrightarrow> time_enabled self \<and> (\<forall>p \<in> set pts. time p \<noteq> None)"
proof (induction pts arbitrary: self index)
  case Nil
  then show ?case by simp
next
  case (Cons p pts)
  from Cons.prems(1) obtain s where
    r: "track_route_loop B s (Suc index) pts = Inr self'"
    and e: "time_enabled s \<longrightarrow> time_enabled self \<and> time p \<noteq> None"
    by (auto simp: Let_def split: sum.splits prod.splits if_splits)
  from Cons.IH[OF r Cons.prems(2)] e show ?case by auto
qed

text \<open>
  The same on the object \<open>__init__\<close> returns: a segment with at least one point outside
  every camera gives an object with no membership, and the two passes return zeros. On an
  empty segment \<open>__init__\<close> raises IndexError at \<open>self.points[-1]\<close>.
\<close>

lemma init_outside_every_camera:
  assumes "load_cameras camfile = Inr loaded"
    and "seg \<noteq> []"
    and "\<forall>p \<in> set seg. \<forall>c \<in> set loaded.
           outside_camera B rad (snd c) (latitude p) (longitude p)"
  shows "\<exists>self. init B rad camfile seg = Inr self
           \<and> cameras_per_point self = [] \<and> cam_amount self = 0
           \<and> time_and_distance_in_camera_fov B self = Inr (self, 0, PyFloat 0)"
proof -
  let ?s0 = "new_exposure rad loaded seg"
  have "\<forall>p \<in> set seg. \<forall>c \<in> set (cams ?s0).
          outside_camera B (radius ?s0) (snd c) (latitude p) (longitude p)"
    using assms(3) by (simp add: new_exposure_def)
  from track_route_loop_outside[OF this, of 0] obtain s1 where
    r: "track_route_loop B ?s0 0 seg = Inr s1"
    and f: "cameras_per_point s1 = []" "unique_cameras s1 = {}" "points s1 = seg"
    by (auto simp: new_exposure_def)
  let ?s2 = "s1\<lparr>cam_amount := card (unique_cameras s1)\<rparr>"
  have tr: "track_route B ?s0 = Inr ?s2"
    using r by (simp add: track_route_def new_exposure_def)
  let ?s3 = "?s2\<lparr>total_distance := get_total_distance ?s2\<rparr>"
  have "\<exists>t. init B rad camfile seg = Inr (?s3\<lparr>total_time := t\<rparr>)"
  proof (cases "time_enabled s1")
    case False
    then have "init B rad camfile seg = Inr (?s3\<lparr>total_time := 0\<rparr>)"
      using assms(1) tr by (simp add: init_def Let_def)
    then show ?thesis by blast
  next
    case True
    from track_route_loop_times[OF r True] assms(2)
    have "time (last seg) \<noteq> None" "time (hd seg) \<noteq> None" by auto
    then obtain t1 t0 where "time (last seg) = Some t1" "time (hd seg) = Some t0" by auto
    with True f(3) assms(1,2) tr
    have "init B rad camfile seg = Inr (?s3\<lparr>total_time := t1 - t0\<rparr>)"
      by (simp add: init_def Let_def)
    then show ?thesis by blast
  qed
  then obtain t where i: "init B rad camfile seg = Inr (?s3\<lparr>total_time := t\<rparr>)" by blast
  from f have "cameras_per_point (?s3\<lparr>total_time := t\<rparr>) = []
    \<and> cam_amount (?s3\<lparr>total_time := t\<rparr>) = 0
    \<and> time_and_distance_in_camera_fov B (?s3\<lparr>total_time := t\<rparr>)
        = Inr (?s3\<lparr>total_time := t\<rparr>, 0, PyFloat 0)"
    by (simp add: time_and_distance_in_camera_fov_def calculate_direction_def)
  with i show ?thesis by blast
qed

lemma init_empty_segment:
  "load_cameras camfile = Inr loaded \<Longrightarrow> init B rad camfile [] = Inl IndexError"
  by (simp add: init_def track_route_def new_exposure_def Let_def)

subsection \<open>The membership pass and the speed flag\<close>


subsection \<open>Sums, an upper bound of \<open>pi\<close>, and the haversine distance along the equator\<close>

lemma fold_add_sum:
  "fold (\<lambda>i (acc::real). acc + f i) [0..<m] a = a + (\<Sum>i<m. f i)"
  by (induction m arbitrary: a) (auto simp: algebra_simps)

lemma sin_5241: "1 / 2 < sin (0.5241::real)"
proof -
  have expand: "(\<Sum>m<7. f m) = f 0 + f 1 + f 2 + f 3 + f 4 + f 5 + f 6" for f :: "nat \<Rightarrow> real"
    by (simp add: eval_nat_numeral lessThan_Suc)
  have coeff: "sin_coeff 0 = 0" "sin_coeff 1 = 1" "sin_coeff 2 = 0" "sin_coeff 3 = - (1 / 6)"
    "sin_coeff 4 = 0" "sin_coeff 5 = 1 / 120" "sin_coeff 6 = 0"
    by (simp_all add: sin_coeff_def fact_numeral)
  have "\<bar>sin (0.5241::real) - (\<Sum>m<7. sin_coeff m * 0.5241 ^ m)\<bar>
        \<le> inverse (fact 7) * \<bar>0.5241\<bar> ^ 7"
    by (rule Maclaurin_sin_bound)
  moreover have "(\<Sum>m<7. sin_coeff m * (0.5241::real) ^ m)
                 - inverse (fact 7) * \<bar>0.5241\<bar> ^ 7 > 1 / 2"
    unfolding expand coeff by (simp add: fact_numeral power_divide)
  ultimately show ?thesis by linarith
qed

lemma pi_upper: "pi < 3.1446"
proof (rule ccontr)
  assume "\<not> pi < 3.1446"
  then have "0.5241 \<le> pi / 6" by simp
  moreover have "pi / 6 \<le> pi / 2" by simp
  ultimately have "sin 0.5241 \<le> sin (pi / 6)"
    by (intro sin_monotone_2pi_le) (auto intro: order_trans[of _ 0])
  with sin_5241 show False by (simp add: sin_30)
qed

lemma haversine_on_equator:
  assumes "0 < d" "d < 180"
  shows "haversine_distance 0 0 0 d = 6371000 * (d * pi / 180)"
proof -
  let ?x = "d * pi / 360"
  have x0: "0 < ?x" using assms by simp
  have "d * pi < 180 * pi" using assms by (intro mult_strict_right_mono) auto
  then have x1: "?x < pi / 2" by linarith
  have x2: "?x < pi" using x1 pi_gt_zero by linarith
  have x3: "- (pi / 2) < ?x" using x0 pi_gt_zero by linarith
  have s: "0 < sin ?x" using x0 x2 by (rule sin_gt_zero)
  have c: "0 < cos ?x" using x3 x1 by (rule cos_gt_zero_pi)
  have "1 - (sin ?x)\<^sup>2 = (cos ?x)\<^sup>2"
    using sin_cos_squared_add[of ?x] by linarith
  then have sq: "sqrt (1 - (sin ?x)\<^sup>2) = cos ?x" using c by simp
  have "arctan2 (sin ?x) (cos ?x) = arctan (tan ?x)"
    using c by (simp add: arctan2_def tan_def)
  also have "\<dots> = ?x" using x3 x1 by (rule arctan_tan)
  finally have a: "arctan2 (sin ?x) (cos ?x) = ?x" .
  have ab: "\<bar>sin ?x\<bar> = sin ?x" using s by simp
  show ?thesis
    by (simp add: haversine_distance_def Let_def sq ab a R_def deg2rad_def)
qed

subsection \<open>Every camera of the report has its entry\<close>

text \<open>
  The membership pass keeps \<open>cameras_known\<close>; a point of the membership that a pass does
  not skip leaves an entry of \<open>cam_expo\<close> for each of its cameras, and with two points or
  more every point is taken by one of the two passes. So lines 295-298 of \<open>main\<close> find
  every key they look up.
\<close>

lemma point_in_camera_fov_loop_keys:
  "point_in_camera_fov_loop B rad cs lat lon = Inr (results, dists)
   \<Longrightarrow> set results \<subseteq> fst ` set cs"
proof (induction cs arbitrary: results dists)
  case Nil
  then show ?case by simp
next
  case (Cons c cs)
  from Cons.prems obtain rs ds where
    "point_in_camera_fov_loop B rad cs lat lon = Inr (rs, ds)"
    and "set results \<subseteq> insert (fst c) (set rs)"
    by (auto split: sum.splits prod.splits if_splits)
  with Cons.IH show ?case by auto
qed

lemma point_in_camera_fov_keys:
  assumes "point_in_camera_fov B self lat lon = Inr (results, dists)" and "cam \<in> set results"
  shows "map_of (cams self) cam \<noteq> None"
proof -
  from point_in_camera_fov_loop_keys[OF assms(1)[unfolded point_in_camera_fov_def]] assms(2)
  have "cam \<in> fst ` set (cams self)" by auto
  then show ?thesis by (simp add: map_of_eq_None_iff)
qed

lemma cameras_known_step:
  assumes "cameras_known self"
    and "\<forall>cam \<in> set predictions. map_of (cams self) cam \<noteq> None"
    and "cams s = cams self"
    and "if predictions \<noteq> []
         then cameras_per_point s = cameras_per_point self @ [(index, predictions)]
              \<and> unique_cameras s = unique_cameras self \<union> set predictions
         else cameras_per_point s = cameras_per_point self
              \<and> unique_cameras s = unique_cameras self"
  shows "cameras_known s"
proof (cases "predictions = []")
  case True
  with assms show ?thesis by (simp add: cameras_known_def)
next
  case False
  with assms(4) have s: "cameras_per_point s = cameras_per_point self @ [(index, predictions)]"
    "unique_cameras s = unique_cameras self \<union> set predictions" by simp_all
  show ?thesis
    unfolding cameras_known_def
  proof
    fix cam assume "cam \<in> unique_cameras s"
    then consider "cam \<in> unique_cameras self" | "cam \<in> set predictions" using s by auto
    then show "map_of (cams s) cam \<noteq> None
               \<and> (\<exists>item \<in> set (cameras_per_point s). cam \<in> set (snd item))"
    proof cases
      case 1
      with assms(1,3) s show ?thesis by (auto simp: cameras_known_def)
    next
      case 2
      with assms(2,3) s show ?thesis by auto
    qed
  qed
qed

lemma track_route_loop_known:
  "track_route_loop B self index pts = Inr self' \<Longrightarrow> cameras_known self
   \<Longrightarrow> cameras_known self'"
proof (induction pts arbitrary: self index)
  case Nil
  then show ?case by simp
next
  case (Cons p pts)
  let ?s1 = "if time p = None then self\<lparr>time_enabled := False\<rparr> else self"
  from Cons.prems(1) obtain predictions dists where
    fov: "point_in_camera_fov B ?s1 (latitude p) (longitude p) = Inr (predictions, dists)"
    by (auto simp: Let_def split: sum.splits)
  let ?s2 = "if speed p \<noteq> None \<and> speed p \<noteq> Some 0 then ?s1\<lparr>speed_enabled := True\<rparr> else ?s1"
  let ?s3 = "?s2\<lparr>distances := distances ?s2 @ dists\<rparr>"
  let ?s4 = "if predictions \<noteq> []
             then ?s3\<lparr>cameras_per_point := cameras_per_point ?s3 @ [(index, predictions)],
                       unique_cameras := unique_cameras ?s3 \<union> set predictions\<rparr>
             else ?s3"
  have "track_route_loop B self index (p # pts) = track_route_loop B ?s4 (Suc index) pts"
    using fov by (simp add: Let_def)
  with Cons.prems(1) have r: "track_route_loop B ?s4 (Suc index) pts = Inr self'"
    by simp
  have c1: "cams ?s1 = cams self" by simp
  have "\<forall>cam \<in> set predictions. map_of (cams ?s1) cam \<noteq> None"
    using point_in_camera_fov_keys[OF fov] by blast
  then have keys: "\<forall>cam \<in> set predictions. map_of (cams self) cam \<noteq> None"
    unfolding c1 .
  have "cameras_known ?s4"
    by (rule cameras_known_step[OF Cons.prems(2) keys, where index = index]) simp_all
  from Cons.IH[OF r this] show ?case .
qed

lemma track_route_loop_points:
  "track_route_loop B self index pts = Inr self' \<Longrightarrow> points self' = points self"
proof (induction pts arbitrary: self index)
  case Nil
  then show ?case by simp
next
  case (Cons p pts)
  from Cons.prems obtain s where
    r: "track_route_loop B s (Suc index) pts = Inr self'"
    and p: "points s = points self"
    by (auto simp: Let_def split: sum.splits prod.splits if_splits)
  from Cons.IH[OF r] p show ?case by simp
qed

lemma get_total_distance_short:
  "length (points self) < 2 \<Longrightarrow> get_total_distance self = 0"
  by (simp add: get_total_distance_def Let_def)

lemma init_known:
  assumes "init B rad camfile seg = Inr ex"
  shows "cameras_known ex \<and> points ex = seg \<and> total_distance ex = get_total_distance ex"
proof -
  from assms obtain loaded s1 where
    r: "track_route_loop B (new_exposure rad loaded seg) 0 seg = Inr s1"
    and ex: "\<exists>t. ex = s1\<lparr>cam_amount := card (unique_cameras s1),
                          total_distance :=
                            get_total_distance (s1\<lparr>cam_amount := card (unique_cameras s1)\<rparr>),
                          total_time := t\<rparr>"
    by (auto simp: init_def track_route_def new_exposure_def Let_def
             split: sum.splits if_splits option.splits)
  have "cameras_known (new_exposure rad loaded seg)"
    by (simp add: cameras_known_def new_exposure_def)
  from track_route_loop_known[OF r this] have k: "cameras_known s1" .
  from track_route_loop_points[OF r] have p: "points s1 = seg"
    by (simp add: new_exposure_def)
  from ex obtain t where
    e: "ex = s1\<lparr>cam_amount := card (unique_cameras s1),
                total_distance :=
                  get_total_distance (s1\<lparr>cam_amount := card (unique_cameras s1)\<rparr>),
                total_time := t\<rparr>" by blast
  from k have "cameras_known ex" unfolding e by (simp add: cameras_known_def)
  moreover have "points ex = seg" unfolding e using p by simp
  moreover have "total_distance ex = get_total_distance ex"
    unfolding e by (simp add: get_total_distance_def)
  ultimately show ?thesis by simp
qed

lemma camera_body_dom:
  assumes "camera_body B backward point_ind other_point course distance n_points cam (self, h, t)
           = Inr (self', h', t')"
  shows "dom (cam_expo self) \<subseteq> dom (cam_expo self') \<and> cam \<in> dom (cam_expo self')"
  using assms
  by (auto simp: camera_body_def Let_def split: if_splits option.splits sum.splits)

lemma cameras_loop_dom:
  "cameras_loop B backward point_ind other_point course distance n_points cs (self, h, t)
     = Inr (self', h', t')
   \<Longrightarrow> dom (cam_expo self) \<union> set cs \<subseteq> dom (cam_expo self')"
proof (induction cs arbitrary: self h t)
  case Nil
  then show ?case by simp
next
  case (Cons cam rest)
  from Cons.prems(1) obtain s1 h1 t1 where
    b: "camera_body B backward point_ind other_point course distance n_points cam (self, h, t)
        = Inr (s1, h1, t1)"
    and l: "cameras_loop B backward point_ind other_point course distance n_points rest (s1, h1, t1)
        = Inr (self', h', t')"
    by (auto split: sum.splits)
  from camera_body_dom[OF b] Cons.IH[OF l] show ?case by auto
qed

lemma point_body_dom:
  assumes "point_body B backward (point_ind, cs) (self, m, t) = Inr (self', m', t')"
  shows "dom (cam_expo self) \<subseteq> dom (cam_expo self')
       \<and> ((if backward then point_ind \<noteq> 0
            else int point_ind \<noteq> int (length (points self)) - 1)
           \<longrightarrow> set cs \<subseteq> dom (cam_expo self'))"
proof (cases "if backward then point_ind = 0
              else int point_ind = int (length (points self)) - 1")
  case True
  with assms have "self' = self" by (simp add: point_body_def split: if_splits)
  with True show ?thesis by (auto split: if_splits)
next
  case False
  with assms obtain other course distance n hd ht where
    l: "cameras_loop B backward point_ind other course distance n cs (self, 0, PyFloat 0)
        = Inr (self', hd, ht)"
    by (auto simp: point_body_def Let_def split: if_splits sum.splits)
  from cameras_loop_dom[OF l] show ?thesis by auto
qed

lemma points_loop_dom:
  "points_loop B backward items (self, m, t) = Inr (self', m', t')
   \<Longrightarrow> dom (cam_expo self) \<subseteq> dom (cam_expo self')
     \<and> (\<forall>item \<in> set items.
          (if backward then fst item \<noteq> 0
           else int (fst item) \<noteq> int (length (points self)) - 1)
          \<longrightarrow> set (snd item) \<subseteq> dom (cam_expo self'))"
proof (induction items arbitrary: self m t)
  case Nil
  then show ?case by simp
next
  case (Cons item rest)
  from Cons.prems(1) obtain s1 m1 t1 where
    b: "point_body B backward item (self, m, t) = Inr (s1, m1, t1)"
    and l: "points_loop B backward rest (s1, m1, t1) = Inr (self', m', t')"
    by (auto split: sum.splits)
  from point_body_frame[OF b] have p: "points s1 = points self"
    by (simp add: same_but_expo_fields)
  from b have b': "point_body B backward (fst item, snd item) (self, m, t) = Inr (s1, m1, t1)"
    by simp
  from point_body_dom[OF b'] have d1: "dom (cam_expo self) \<subseteq> dom (cam_expo s1)"
    and h: "(if backward then fst item \<noteq> 0
             else int (fst item) \<noteq> int (length (points self)) - 1)
            \<longrightarrow> set (snd item) \<subseteq> dom (cam_expo s1)"
    by simp_all
  from Cons.IH[OF l] have d2: "dom (cam_expo s1) \<subseteq> dom (cam_expo self')"
    and r: "\<forall>item \<in> set rest.
              (if backward then fst item \<noteq> 0
               else int (fst item) \<noteq> int (length (points self)) - 1)
              \<longrightarrow> set (snd item) \<subseteq> dom (cam_expo self')"
    unfolding p by simp_all
  from h d2 have "(if backward then fst item \<noteq> 0
             else int (fst item) \<noteq> int (length (points self)) - 1)
            \<longrightarrow> set (snd item) \<subseteq> dom (cam_expo self')"
    by (blast intro: subset_trans)
  with r d1 d2 show ?case by (simp add: subset_trans[OF d1 d2])
qed

lemma time_and_distance_dom:
  assumes "time_and_distance_in_camera_fov B self = Inr (self', m, t)"
    and "2 \<le> length (points self)"
  shows "\<forall>item \<in> set (cameras_per_point self). set (snd item) \<subseteq> dom (cam_expo self')"
proof
  fix item assume item: "item \<in> set (cameras_per_point self)"
  from assms(1) obtain s1 bd bt fd ft where
    b: "points_loop B True (cameras_per_point self) (self, 0, PyFloat 0) = Inr (s1, bd, bt)"
    and f: "points_loop B False (cameras_per_point s1) (s1, 0, PyFloat 0) = Inr (self', fd, ft)"
    by (auto simp: time_and_distance_in_camera_fov_def calculate_direction_def split: sum.splits)
  from points_loop_frame[OF b] have
    s1: "points s1 = points self" "cameras_per_point s1 = cameras_per_point self"
    by (simp_all add: same_but_expo_fields)
  show "set (snd item) \<subseteq> dom (cam_expo self')"
  proof (cases "fst item = 0")
    case False
    with points_loop_dom[OF b] item have "set (snd item) \<subseteq> dom (cam_expo s1)" by auto
    with points_loop_dom[OF f] show ?thesis by auto
  next
    case True
    with assms(2) have "int (fst item) \<noteq> int (length (points s1)) - 1"
      unfolding s1 by simp
    with points_loop_dom[OF f] item s1 show ?thesis by auto
  qed
qed

lemma report_cameras_present:
  assumes "init B rad camfile seg = Inr ex"
    and "time_and_distance_in_camera_fov B ex = Inr (ex', d, t)"
    and "2 \<le> length seg"
  shows "\<not> (\<exists>cam \<in> unique_cameras ex'.
              cam_expo ex' cam = None \<or> map_of (cams ex') cam = None)"
proof -
  from init_known[OF assms(1)] have k: "cameras_known ex" and p: "points ex = seg" by simp_all
  from time_and_distance_frame[OF assms(2)] have
    f: "unique_cameras ex' = unique_cameras ex" "cams ex' = cams ex"
    by (simp_all add: same_but_expo_fields)
  from assms(3) p have "2 \<le> length (points ex)" by simp
  note d = time_and_distance_dom[OF assms(2) this]
  show ?thesis
  proof
    assume "\<exists>cam \<in> unique_cameras ex'. cam_expo ex' cam = None \<or> map_of (cams ex') cam = None"
    then obtain cam where c: "cam \<in> unique_cameras ex"
      and n: "cam_expo ex' cam = None \<or> map_of (cams ex) cam = None"
      unfolding f by blast
    from k c obtain item where "map_of (cams ex) cam \<noteq> None"
      "item \<in> set (cameras_per_point ex)" "cam \<in> set (snd item)"
      by (auto simp: cameras_known_def)
    with d n show False by auto
  qed
qed

text \<open>
  What \<open>main\<close> does after the two passes on a segment of two points or more: the time
  division may raise; otherwise the report is printed, with these percentages.
\<close>

lemma main_segment_time_raises:
  assumes "init B rad camfile seg = Inr ex"
    and "time_and_distance_in_camera_fov B ex = Inr (ex', d, t)"
    and "2 \<le> length seg"
    and "time_enabled ex"
    and "time_percentage_of t (total_time ex) = Inl e"
  shows "main_segment B rad camfile seg = Inl e"
proof -
  from init_known[OF assms(1)] have p: "points ex = seg" by simp
  note f = same_but_expo_fields[OF conjunct1[OF time_and_distance_frame[OF assms(2)]]]
  from assms(3) have n: "\<not> length seg < 2" by simp
  show ?thesis
    using assms(4,5) n
    by (simp add: main_segment_def assms(1,2) f p Let_def case_prod_beta)
qed

lemma main_segment_report:
  assumes "init B rad camfile seg = Inr ex"
    and "time_and_distance_in_camera_fov B ex = Inr (ex', d, t)"
    and "2 \<le> length seg"
    and "time_enabled ex \<longrightarrow> time_percentage_of t (total_time ex) = Inr tp"
  shows "\<exists>rep. main_segment B rad camfile seg = Inr rep
           \<and> dist_percentage rep
             = xround2 (xscale (xdiv (Fin d) (Fin (total_distance ex))) 100)
           \<and> time_percentage rep = (if time_enabled ex then Some (xround2 tp) else None)"
proof -
  from init_known[OF assms(1)] have p: "points ex = seg" by simp
  note f = same_but_expo_fields[OF conjunct1[OF time_and_distance_frame[OF assms(2)]]]
  from report_cameras_present[OF assms(1-3)]
  have k: "(\<exists>cam \<in> unique_cameras ex. cam_expo ex' cam = None \<or> map_of (cams ex) cam = None)
           = False"
    unfolding f by simp
  from assms(3) have n: "\<not> length seg < 2" by simp
  show ?thesis
  proof (cases "time_enabled ex")
    case True
    with assms(4) have "time_percentage_of t (total_time ex) = Inr tp" by simp
    with True n show ?thesis
      by (simp add: main_segment_def assms(1,2) f p k Let_def case_prod_beta)
  next
    case False
    with n show ?thesis
      by (simp add: main_segment_def assms(1,2) f p k Let_def case_prod_beta)
  qed
qed

subsection \<open>The concrete runs\<close>

lemma init_short: "init decimal None one_camera short_track = Inr short_state"
  by (simp add: run_defs one_camera_def short_track_def short_state_def camera_at_origin_def)

lemma back_short:
  "calculate_direction decimal short_state True
   = Inr (short_state\<lparr>cam_expo := seen_once\<rparr>, 0.5, PyFloat 0.5)"
  by (simp add: pass_defs short_state_def short_track_def seen_once_def)

lemma front_short:
  "calculate_direction decimal (short_state\<lparr>cam_expo := seen_once\<rparr>) False
   = Inr (short_state\<lparr>cam_expo := seen_once\<rparr>, 0, PyFloat 0)"
  by (simp add: pass_defs short_state_def short_track_def seen_once_def)

lemma tad_short:
  "time_and_distance_in_camera_fov decimal short_state
   = Inr (short_state\<lparr>cam_expo := seen_once\<rparr>, 0.5, PyFloat 0.5)"
  by (simp add: time_and_distance_in_camera_fov_def back_short front_short)

lemma main_short:
  "map_sum id (\<lambda>r. (report_total_distance r, exposure_distance r, dist_percentage r,
                    time_percentage r))
     (main_segment decimal None one_camera short_track)
   = Inr (0.111319, 0.5, Fin 449.16, None)"
  by (simp add: main_segment_def init_short tad_short calc_distance_stats_def)
    (simp add: short_state_def short_track_def seen_once_def camera_at_origin_def
       round2_def rint_def)

lemma init_stalled: "init decimal None one_camera stalled_track = Inr stalled_state"
  by (simp add: run_defs one_camera_def stalled_track_def stalled_state_def
      camera_at_origin_def eval_nat_numeral)

lemma back_stalled:
  "calculate_direction decimal stalled_state True
   = Inr (stalled_state\<lparr>cam_expo := seen_twice\<rparr>, 1, NpFloat (Fin (500000 / 111319)))"
  by (simp add: pass_defs stalled_state_def stalled_track_def seen_twice_def)

lemma front_stalled:
  "calculate_direction decimal (stalled_state\<lparr>cam_expo := seen_twice\<rparr>) False
   = Inr (stalled_state\<lparr>cam_expo := seen_twice\<rparr>, 0, PyFloat 0)"
  by (simp add: pass_defs stalled_state_def stalled_track_def seen_twice_def)

lemma tad_stalled:
  "time_and_distance_in_camera_fov decimal stalled_state
   = Inr (stalled_state\<lparr>cam_expo := seen_twice\<rparr>, 1, NpFloat (Fin (500000 / 111319)))"
  by (simp add: time_and_distance_in_camera_fov_def back_stalled front_stalled)

lemma main_stalled:
  "map_sum id (\<lambda>r. (dist_percentage r, time_percentage r, avg_speed r))
     (main_segment decimal None one_camera stalled_track)
   = Inr (Fin 449.16, Some (Fin 449.16), Some (Fin 0.8))"
  by (simp add: main_segment_def init_stalled tad_stalled calc_distance_stats_def)
    (simp add: stalled_state_def stalled_track_def seen_twice_def camera_at_origin_def
       time_percentage_of_def round2_def rint_def)

lemma init_instant: "init decimal None one_camera instant_track = Inr instant_state"
  by (simp add: run_defs one_camera_def instant_track_def instant_state_def
      camera_at_origin_def)

lemma back_instant:
  "calculate_direction decimal instant_state True
   = Inr (instant_state\<lparr>cam_expo := seen_instant\<rparr>, 0.5, PyFloat 0)"
  by (simp add: pass_defs instant_state_def instant_track_def seen_instant_def)

lemma front_instant:
  "calculate_direction decimal (instant_state\<lparr>cam_expo := seen_instant\<rparr>) False
   = Inr (instant_state\<lparr>cam_expo := seen_instant\<rparr>, 0, PyFloat 0)"
  by (simp add: pass_defs instant_state_def instant_track_def seen_instant_def)

lemma tad_instant:
  "time_and_distance_in_camera_fov decimal instant_state
   = Inr (instant_state\<lparr>cam_expo := seen_instant\<rparr>, 0.5, PyFloat 0)"
  by (simp add: time_and_distance_in_camera_fov_def back_instant front_instant)

lemma init_standing: "init decimal None one_camera standing_track = Inr standing_state"
  by (simp add: run_defs one_camera_def standing_track_def standing_state_def instant_state_def
      camera_at_origin_def)

lemma back_standing:
  "calculate_direction decimal standing_state True
   = Inr (standing_state\<lparr>cam_expo := seen_standing\<rparr>, 0.5, NpFloat (Fin 10))"
  by (simp add: pass_defs standing_state_def instant_state_def standing_track_def
      seen_standing_def)

lemma front_standing:
  "calculate_direction decimal (standing_state\<lparr>cam_expo := seen_standing\<rparr>) False
   = Inr (standing_state\<lparr>cam_expo := seen_standing\<rparr>, 0, PyFloat 0)"
  by (simp add: pass_defs standing_state_def instant_state_def standing_track_def
      seen_standing_def)

lemma tad_standing:
  "time_and_distance_in_camera_fov decimal standing_state
   = Inr (standing_state\<lparr>cam_expo := seen_standing\<rparr>, 0.5, NpFloat (Fin 10))"
  by (simp add: time_and_distance_in_camera_fov_def back_standing front_standing)

lemma main_standing:
  "map_sum id (\<lambda>r. (dist_percentage r, time_percentage r))
     (main_segment decimal None one_camera standing_track) = Inr (PosInf, Some (Fin 100))"
  by (simp add: main_segment_def init_standing tad_standing calc_distance_stats_def)
    (simp add: standing_state_def instant_state_def standing_track_def seen_standing_def
       camera_at_origin_def time_percentage_of_def round2_def rint_def)

lemma init_unwatched:
  "init decimal None no_cameras standing_track
   = Inr ((new_exposure None [] standing_track)\<lparr>total_distance := 0, total_time := 10\<rparr>)"
  by (simp add: run_defs no_cameras_def standing_track_def)

lemma tad_no_cameras:
  "time_and_distance_in_camera_fov decimal
     ((new_exposure None [] pts)\<lparr>total_distance := d, total_time := t\<rparr>)
   = Inr ((new_exposure None [] pts)\<lparr>total_distance := d, total_time := t\<rparr>, 0, PyFloat 0)"
  by (simp add: time_and_distance_in_camera_fov_def calculate_direction_def new_exposure_def)

lemma main_unwatched:
  "map_sum id (\<lambda>r. (dist_percentage r, time_percentage r))
     (main_segment decimal None no_cameras standing_track) = Inr (NaN, Some (Fin 0))"
  by (simp add: main_segment_def init_unwatched tad_no_cameras calc_distance_stats_def)
    (simp add: new_exposure_def standing_track_def time_percentage_of_def round2_def rint_def)




lemma main_single: "main_segment decimal None one_camera single_track = Inl ZeroDivisionError"
  by (simp add: main_segment_def run_defs one_camera_def single_track_def
        time_and_distance_in_camera_fov_def pass_defs)

lemma track_far:
  "track_route decimal (new_exposure None [(0, camera_at_origin)] far_track) = Inr far_state"
  by (simp add: run_defs far_track_def far_state_def camera_at_origin_def)

lemma main_equator:
  "map_sum id report_total_distance (main_segment decimal None no_cameras equator_track)
   = Inr 111.319"
  by (simp add: main_segment_def run_defs no_cameras_def equator_track_def
        quick_distance_on_equator time_and_distance_in_camera_fov_def calculate_direction_def
        calc_distance_stats_def)

subsection \<open>The directed test (C1)\<close>

text \<open>
  C1. The claim: for a directed camera with angle of view below 360 and a point within
  the radius, the FOV test is true exactly when the bearing from the camera to the point
  lies in \<open>[direction - angle/2, direction + angle/2]\<close> modulo 360, also when the range
  spans 0/360. The code at the catalog row \<open>0,0,10,directed,40,350\<close> and the point
  \<open>(0.00001, 0)\<close>, 1.11 m due north of the camera: the bearing is 0, which the
  specification's range \<open>[330, 370]\<close> contains; the loaded direction is the string
  \<open>'350'\<close>, so the test raises TypeError; and with the direction given as the number 350
  the test compares \<open>330 \<le> 0 \<le> 10\<close> and answers False.
\<close>

theorem directed_fov_wraparound_fails:
  "load_cameras
     [[''latitude'', ''longitude'', ''radius'', ''camera type'', ''angle of view'', ''direction''],
      [''0'', ''0'', ''10'', ''directed'', ''40'', ''350'']]
   = Inr [(0, [''latitude'' \<mapsto> PStr ''0'', ''longitude'' \<mapsto> PStr ''0'',
               ''radius'' \<mapsto> PStr ''10'', ''camera type'' \<mapsto> PStr ''directed'',
               ''angle of view'' \<mapsto> PStr ''40'', ''direction'' \<mapsto> PStr ''350''])]
   \<and> get_bearing 0 0 0.00001 0 = 0
   \<and> spec_in_angular_range 350 40 0
   \<and> is_in_fov decimal None
        [''latitude'' \<mapsto> PStr ''0'', ''longitude'' \<mapsto> PStr ''0'',
         ''radius'' \<mapsto> PStr ''10'', ''camera type'' \<mapsto> PStr ''directed'',
         ''angle of view'' \<mapsto> PStr ''40'', ''direction'' \<mapsto> PStr ''350'']
        0.00001 0 0 = Inl TypeError
   \<and> is_in_fov decimal None
        [''latitude'' \<mapsto> PStr ''0'', ''longitude'' \<mapsto> PStr ''0'',
         ''radius'' \<mapsto> PStr ''10'', ''camera type'' \<mapsto> PStr ''directed'',
         ''angle of view'' \<mapsto> PStr ''40'', ''direction'' \<mapsto> PFloat 350]
        0.00001 0 0 = Inr (1.11319, False)"
proof -
  have north: "get_bearing 0 0 0.00001 0 = 0"
    by (rule get_bearing_due_north) simp_all
  have "350 - real_of_int 40 / 2 \<le> 0 + 360 * real_of_int 1
        \<and> 0 + 360 * real_of_int 1 \<le> 350 + real_of_int 40 / 2"
    by simp
  then have spec: "spec_in_angular_range 350 40 0"
    unfolding spec_in_angular_range_def by (rule exI)
  have load: "load_cameras
     [[''latitude'', ''longitude'', ''radius'', ''camera type'', ''angle of view'', ''direction''],
      [''0'', ''0'', ''10'', ''directed'', ''40'', ''350'']]
   = Inr [(0, [''latitude'' \<mapsto> PStr ''0'', ''longitude'' \<mapsto> PStr ''0'',
               ''radius'' \<mapsto> PStr ''10'', ''camera type'' \<mapsto> PStr ''directed'',
               ''angle of view'' \<mapsto> PStr ''40'', ''direction'' \<mapsto> PStr ''350''])]"
    by (simp add: load_cameras_def)
  have raised: "is_in_fov decimal None
        [''latitude'' \<mapsto> PStr ''0'', ''longitude'' \<mapsto> PStr ''0'',
         ''radius'' \<mapsto> PStr ''10'', ''camera type'' \<mapsto> PStr ''directed'',
         ''angle of view'' \<mapsto> PStr ''40'', ''direction'' \<mapsto> PStr ''350'']
        0.00001 0 0 = Inl TypeError"
    by (simp add: fov_defs decimal_defs quick_distance_def real_sqrt_abs2)
  have linear: "is_in_fov decimal None
        [''latitude'' \<mapsto> PStr ''0'', ''longitude'' \<mapsto> PStr ''0'',
         ''radius'' \<mapsto> PStr ''10'', ''camera type'' \<mapsto> PStr ''directed'',
         ''angle of view'' \<mapsto> PStr ''40'', ''direction'' \<mapsto> PFloat 350]
        0.00001 0 0 = Inr (1.11319, False)"
    using north
    by (simp add: fov_defs decimal_defs quick_distance_def real_sqrt_abs2 py_fmod_def)
  from load north spec raised linear show ?thesis by blast
qed

subsection \<open>Round cameras and the radius override (C3)\<close>

text \<open>
  C3 as stated: for a round camera the test with margin 0 is true exactly when the planar
  distance is at most the effective radius, which is the global override whenever one was
  configured, 0 included. At the override 0 the code falls back to the camera's own radius
  (default 10): a point 1.11 m from the camera is in its FOV although \<open>1.11 \<le> 0\<close> is false.
\<close>

theorem radius_override_zero_counterexample:
  "is_in_fov decimal (Some 0) [''latitude'' \<mapsto> PStr ''0'', ''longitude'' \<mapsto> PStr ''0'']
     0.00001 0 0 = Inr (quick_distance 0.00001 0 0 0, True)
   \<and> \<not> quick_distance 0.00001 0 0 0 \<le> real_of_int 0"
  by (simp add: fov_defs decimal_defs quick_distance_def real_sqrt_abs2)

text \<open>
  C3, amended: for a round camera (type \<open>round\<close> or no type) whose position reads as
  numbers, the test with margin 0 returns true exactly when
  \<open>quick_distance(point, camera) \<le> effectiveRadius\<close>, where the effective radius is the
  override when one is configured and is not 0, and otherwise (no override, or the
  override 0) the camera's own radius, 10 when the record has none.
\<close>

theorem round_camera_membership:
  assumes "get_or cam ''camera type'' (PStr ''round'') = PStr ''round''"
    and "py_float B (get cam ''latitude'') = Inr clat"
    and "py_float B (get cam ''longitude'') = Inr clon"
    and "(\<exists>r. rad = Some r \<and> r \<noteq> 0 \<and> fov = of_int r)
         \<or> ((rad = None \<or> rad = Some 0)
            \<and> py_float B (get_or cam ''radius'' (PInt 10)) = Inr fov)"
  shows "is_in_fov B rad cam lat lon 0
         = Inr (quick_distance lat lon clat clon, quick_distance lat lon clat clon \<le> fov)"
proof -
  from assms(4) have "effective_radius B rad cam = Inr fov"
    by (auto simp: effective_radius_def)
  with assms(1-3) show ?thesis
    by (simp add: is_in_fov_def check_dist_to_cam_def Let_def)
qed

theorem round_camera_membership_witness:
  "is_in_fov decimal (Some 5) [''latitude'' \<mapsto> PStr ''0'', ''longitude'' \<mapsto> PStr ''0'']
     0.00005 0 0 = Inr (quick_distance 0.00005 0 0 0, quick_distance 0.00005 0 0 0 \<le> 5)
   \<and> is_in_fov decimal None [''latitude'' \<mapsto> PStr ''0'', ''longitude'' \<mapsto> PStr ''0'']
     0.00005 0 0 = Inr (quick_distance 0.00005 0 0 0, quick_distance 0.00005 0 0 0 \<le> 10)
   \<and> \<not> quick_distance 0.00005 0 0 0 \<le> 5 \<and> quick_distance 0.00005 0 0 0 \<le> 10"
proof -
  let ?cam = "[''latitude'' \<mapsto> PStr ''0'', ''longitude'' \<mapsto> PStr ''0'']"
  have ty: "get_or ?cam ''camera type'' (PStr ''round'') = PStr ''round''"
    by (simp add: get_or_def)
  have la: "py_float decimal (get ?cam ''latitude'') = Inr 0"
    by (simp add: get_def get_or_def decimal_defs)
  have lo: "py_float decimal (get ?cam ''longitude'') = Inr 0"
    by (simp add: get_def get_or_def decimal_defs)
  have r5: "(\<exists>r. Some (5::int) = Some r \<and> r \<noteq> 0 \<and> (5::real) = of_int r)
         \<or> ((Some (5::int) = None \<or> Some (5::int) = Some 0)
            \<and> py_float decimal (get_or ?cam ''radius'' (PInt 10)) = Inr 5)"
    by simp
  have r10: "(\<exists>r. (None::int option) = Some r \<and> r \<noteq> 0 \<and> (10::real) = of_int r)
         \<or> (((None::int option) = None \<or> (None::int option) = Some 0)
            \<and> py_float decimal (get_or ?cam ''radius'' (PInt 10)) = Inr 10)"
    by (simp add: get_or_def)
  have d: "\<not> quick_distance 0.00005 0 0 0 \<le> 5 \<and> quick_distance 0.00005 0 0 0 \<le> 10"
    by (simp add: quick_distance_def real_sqrt_abs2)
  from round_camera_membership[OF ty la lo r5, where lat = "0.00005" and lon = 0]
       round_camera_membership[OF ty la lo r10, where lat = "0.00005" and lon = 0] d
  show ?thesis by blast
qed

subsection \<open>A directed camera of 360 degrees (C4)\<close>

text \<open>
  C4. For every point and every margin, a directed camera whose angle of view is 360
  gets the verdict of a round camera with the same position and radius (the same
  result, be it a truth value or an exception).
\<close>

theorem directed_360_same_as_round:
  assumes "cam ''camera type'' = Some (PStr ''directed'')"
    and "py_int B (get_or cam ''angle of view'' (PStr ''360'')) = Inr 360"
    and "rcam ''camera type'' = Some (PStr ''round'') \<or> rcam ''camera type'' = None"
    and "rcam ''latitude'' = cam ''latitude''"
    and "rcam ''longitude'' = cam ''longitude''"
    and "rcam ''radius'' = cam ''radius''"
  shows "is_in_fov B rad cam lat lon addon = is_in_fov B rad rcam lat lon addon"
proof -
  have eff: "effective_radius B rad rcam = effective_radius B rad cam"
    using assms(6) by (simp add: effective_radius_def get_or_def split: option.splits)
  have chk: "check_dist_to_cam B rad d cam lat lon addon
             = check_dist_to_cam B rad d rcam lat lon addon" for d
    using assms(1-3) eff
    by (auto simp: check_dist_to_cam_def directed_test_def get_or_def split: sum.splits)
  have pos: "get rcam ''latitude'' = get cam ''latitude''"
    "get rcam ''longitude'' = get cam ''longitude''"
    using assms(4,5) by (simp_all add: get_def get_or_def)
  show ?thesis
    by (simp add: is_in_fov_def pos chk cong: sum.case_cong)
qed

theorem directed_360_same_as_round_witness:
  "is_in_fov decimal None
     [''latitude'' \<mapsto> PStr ''0'', ''longitude'' \<mapsto> PStr ''0'', ''radius'' \<mapsto> PStr ''10'',
      ''camera type'' \<mapsto> PStr ''directed'', ''angle of view'' \<mapsto> PStr ''360'']
     0.00001 0 1
   = is_in_fov decimal None
     [''latitude'' \<mapsto> PStr ''0'', ''longitude'' \<mapsto> PStr ''0'', ''radius'' \<mapsto> PStr ''10'',
      ''camera type'' \<mapsto> PStr ''round'']
     0.00001 0 1
   \<and> is_in_fov decimal None
     [''latitude'' \<mapsto> PStr ''0'', ''longitude'' \<mapsto> PStr ''0'', ''radius'' \<mapsto> PStr ''10'',
      ''camera type'' \<mapsto> PStr ''round'']
     0.00001 0 1 = Inr (1.11319, True)"
proof -
  let ?cam = "[''latitude'' \<mapsto> PStr ''0'', ''longitude'' \<mapsto> PStr ''0'', ''radius'' \<mapsto> PStr ''10'',
      ''camera type'' \<mapsto> PStr ''directed'', ''angle of view'' \<mapsto> PStr ''360'']"
  let ?rcam = "[''latitude'' \<mapsto> PStr ''0'', ''longitude'' \<mapsto> PStr ''0'', ''radius'' \<mapsto> PStr ''10'',
      ''camera type'' \<mapsto> PStr ''round'']"
  have h1: "?cam ''camera type'' = Some (PStr ''directed'')" by simp
  have h2: "py_int decimal (get_or ?cam ''angle of view'' (PStr ''360'')) = Inr 360"
    by (simp add: get_or_def decimal_defs)
  have h3: "?rcam ''camera type'' = Some (PStr ''round'') \<or> ?rcam ''camera type'' = None"
    by simp
  have h4: "?rcam ''latitude'' = ?cam ''latitude''" by simp
  have h5: "?rcam ''longitude'' = ?cam ''longitude''" by simp
  have h6: "?rcam ''radius'' = ?cam ''radius''" by simp
  have v: "is_in_fov decimal None ?rcam 0.00001 0 1 = Inr (1.11319, True)"
    by (simp add: fov_defs decimal_defs quick_distance_def real_sqrt_abs2)
  from directed_360_same_as_round[OF h1 h2 h3 h4 h5 h6,
         where rad = None and lat = "0.00001" and lon = 0 and addon = 1] v
  show ?thesis by blast
qed

subsection \<open>Directed cameras of the catalog (C9)\<close>

text \<open>
  C9. For every camera record that \<open>load_cameras\<close> built, of type \<open>directed\<close> and with an
  angle of view below 360, every point that passes the radius check makes the FOV test
  raise TypeError: the direction is the string of the CSV cell, or None when the cell is
  missing or empty, and \<open>direction - angle / 2\<close> is evaluated on it.
\<close>

theorem loaded_directed_camera_raises:
  assumes "load_cameras reader = Inr cs" and "(i, cam) \<in> set cs"
    and "cam ''camera type'' = Some (PStr ''directed'')"
    and "py_int B (get_or cam ''angle of view'' (PStr ''360'')) = Inr angle"
    and "angle < 360"
    and "effective_radius B rad cam = Inr fov"
    and "d \<le> fov + addon"
  shows "check_dist_to_cam B rad d cam lat lon addon = Inl TypeError"
  using assms(3-) loaded_direction_not_number[OF assms(1,2)]
  by (simp add: check_dist_to_cam_def directed_test_def get_or_def)

theorem loaded_directed_camera_raises_witness:
  "check_dist_to_cam decimal None 3
     [''latitude'' \<mapsto> PStr ''60.1'', ''longitude'' \<mapsto> PStr ''24.9'',
      ''camera type'' \<mapsto> PStr ''directed'', ''angle of view'' \<mapsto> PStr ''90'',
      ''direction'' \<mapsto> PStr ''45''] 60.1 24.9 0 = Inl TypeError"
proof -
  let ?cam = "[''latitude'' \<mapsto> PStr ''60.1'', ''longitude'' \<mapsto> PStr ''24.9'',
      ''camera type'' \<mapsto> PStr ''directed'', ''angle of view'' \<mapsto> PStr ''90'',
      ''direction'' \<mapsto> PStr ''45'']"
  have h1: "load_cameras
     [[''latitude'', ''longitude'', ''radius'', ''camera type'', ''angle of view'', ''direction''],
      [''60.1'', ''24.9'', [], ''directed'', ''90'', ''45'']] = Inr [(0, ?cam)]"
    by (simp add: load_cameras_def)
  have h2: "(0, ?cam) \<in> set [(0, ?cam)]" by simp
  have h3: "?cam ''camera type'' = Some (PStr ''directed'')" by simp
  have h4: "py_int decimal (get_or ?cam ''angle of view'' (PStr ''360'')) = Inr 90"
    by (simp add: get_or_def decimal_defs)
  have h5: "(90::int) < 360" by simp
  have h6: "effective_radius decimal None ?cam = Inr 10"
    by (simp add: effective_radius_def get_or_def)
  have h7: "(3::real) \<le> 10 + 0" by simp
  from loaded_directed_camera_raises[OF h1 h2 h3 h4 h5 h6 h7] show ?thesis .
qed

subsection \<open>Zero totals (C2)\<close>

lemma main_segment_short:
  assumes "init B rad camfile seg = Inr ex"
    and "time_and_distance_in_camera_fov B ex = Inr (ex', d, t)"
    and "length seg < 2"
  shows "main_segment B rad camfile seg = Inl ZeroDivisionError"
proof -
  from init_known[OF assms(1)] have p: "points ex = seg" by simp
  note f = same_but_expo_fields[OF conjunct1[OF time_and_distance_frame[OF assms(2)]]]
  show ?thesis
    using assms(3) by (simp add: main_segment_def assms(1,2) f p Let_def case_prod_beta)
qed

lemma division_by_zero_not_finite:
  "\<not> is_finite (xround2 (xscale (xdiv x (Fin 0)) 100))"
  by (cases x) auto

text \<open>
  C2 as stated: for a track whose total distance is zero, or whose total time is zero
  with timestamps present, the program reports an explicit insufficient-data condition
  instead of a division fault or NaN, every percentage division being guarded. At a
  segment of a single point next to a camera the total distance is the int 0 and
  \<open>dist / exposure.total_distance\<close> raises ZeroDivisionError.
\<close>

theorem zero_total_division_counterexample:
  "main_segment decimal None one_camera single_track = Inl ZeroDivisionError"
  by (rule main_single)

text \<open>
  C2, amended: no percentage division is guarded. When the total distance is zero, or
  the total time is zero with timestamps present, and the catalog is loaded and both
  passes are through, \<open>main\<close> raises ZeroDivisionError if the segment has fewer than two
  points (line 270, a float by the int 0) or if the total time is zero and the exposure
  time is a Python float (line 287); in every other case it prints the report, in which
  the distance percentage is \<open>inf\<close> or \<open>nan\<close> when the total distance is zero, and the
  time percentage is \<open>inf\<close> or \<open>nan\<close> when the total time is zero.
\<close>

theorem zero_totals_unguarded:
  assumes "init B rad camfile seg = Inr ex"
    and "time_and_distance_in_camera_fov B ex = Inr (ex', d, t)"
    and "total_distance ex = 0 \<or> (time_enabled ex \<and> total_time ex = 0)"
  shows "if length seg < 2 \<or> (time_enabled ex \<and> total_time ex = 0 \<and> (\<exists>v. t = PyFloat v))
         then main_segment B rad camfile seg = Inl ZeroDivisionError
         else \<exists>rep. main_segment B rad camfile seg = Inr rep
                \<and> (total_distance ex = 0 \<longrightarrow> \<not> is_finite (dist_percentage rep))
                \<and> (time_enabled ex \<and> total_time ex = 0
                    \<longrightarrow> (\<exists>tp. time_percentage rep = Some tp \<and> \<not> is_finite tp))"
proof (cases "length seg < 2")
  case True
  with main_segment_short[OF assms(1,2)] show ?thesis by simp
next
  case False
  then have n: "2 \<le> length seg" by simp
  show ?thesis
  proof (cases "time_enabled ex \<and> total_time ex = 0 \<and> (\<exists>v. t = PyFloat v)")
    case True
    then have "time_percentage_of t (total_time ex) = Inl ZeroDivisionError"
      by (auto simp: time_percentage_of_def)
    from main_segment_time_raises[OF assms(1,2) n _ this] True show ?thesis by simp
  next
    case py: False
    obtain tp where tp: "time_enabled ex \<longrightarrow> time_percentage_of t (total_time ex) = Inr tp"
      and z: "time_enabled ex \<and> total_time ex = 0
              \<longrightarrow> (\<exists>x. tp = xscale (xdiv x (Fin 0)) 100)"
    proof (cases t)
      case (PyFloat v)
      with py have nz: "time_enabled ex \<longrightarrow> total_time ex \<noteq> 0" by simp
      with PyFloat have
        "time_enabled ex \<longrightarrow> time_percentage_of t (total_time ex)
                               = Inr (Fin (v / total_time ex * 100))"
        by (simp add: time_percentage_of_def)
      moreover from nz have
        "time_enabled ex \<and> total_time ex = 0
         \<longrightarrow> (\<exists>x. Fin (v / total_time ex * 100) = xscale (xdiv x (Fin 0)) 100)"
        by blast
      ultimately show ?thesis by (rule that)
    next
      case (NpFloat x)
      then have
        "time_enabled ex \<longrightarrow> time_percentage_of t (total_time ex)
                               = Inr (xscale (xdiv x (Fin (total_time ex))) 100)"
        "time_enabled ex \<and> total_time ex = 0
         \<longrightarrow> (\<exists>y. xscale (xdiv x (Fin (total_time ex))) 100 = xscale (xdiv y (Fin 0)) 100)"
        by (auto simp: time_percentage_of_def)
      then show ?thesis by (rule that)
    qed
    from main_segment_report[OF assms(1,2) n tp] obtain rep where
      m: "main_segment B rad camfile seg = Inr rep"
      and dp: "dist_percentage rep
               = xround2 (xscale (xdiv (Fin d) (Fin (total_distance ex))) 100)"
      and t: "time_percentage rep = (if time_enabled ex then Some (xround2 tp) else None)"
      by blast
    have a: "total_distance ex = 0 \<longrightarrow> \<not> is_finite (dist_percentage rep)"
      unfolding dp by (auto simp: division_by_zero_not_finite)
    have b: "time_enabled ex \<and> total_time ex = 0
             \<longrightarrow> (\<exists>tp. time_percentage rep = Some tp \<and> \<not> is_finite tp)"
      using z unfolding t by (auto simp: division_by_zero_not_finite)
    from False py m a b show ?thesis by auto
  qed
qed

theorem zero_totals_unguarded_witness:
  "main_segment decimal None one_camera instant_track = Inl ZeroDivisionError
   \<and> map_sum id (\<lambda>r. is_finite (dist_percentage r))
       (main_segment decimal None one_camera standing_track) = Inr False
   \<and> map_sum id (\<lambda>r. (dist_percentage r, time_percentage r))
       (main_segment decimal None one_camera standing_track) = Inr (PosInf, Some (Fin 100))
   \<and> map_sum id (\<lambda>r. is_finite (dist_percentage r))
       (main_segment decimal None no_cameras standing_track) = Inr False
   \<and> map_sum id (\<lambda>r. (dist_percentage r, time_percentage r))
       (main_segment decimal None no_cameras standing_track) = Inr (NaN, Some (Fin 0))"
proof -
  have h1: "total_distance instant_state = 0
            \<or> (time_enabled instant_state \<and> total_time instant_state = 0)"
    by (simp add: instant_state_def)
  have h2: "total_distance standing_state = 0
            \<or> (time_enabled standing_state \<and> total_time standing_state = 0)"
    by (simp add: standing_state_def)
  have h3: "total_distance ((new_exposure None [] standing_track)
                              \<lparr>total_distance := 0, total_time := 10\<rparr>) = 0
            \<or> (time_enabled ((new_exposure None [] standing_track)
                              \<lparr>total_distance := 0, total_time := 10\<rparr>)
               \<and> total_time ((new_exposure None [] standing_track)
                              \<lparr>total_distance := 0, total_time := 10\<rparr>) = 0)"
    by simp
  from zero_totals_unguarded[OF init_instant tad_instant h1]
  have a: "main_segment decimal None one_camera instant_track = Inl ZeroDivisionError"
    by (simp add: instant_state_def instant_track_def)
  from zero_totals_unguarded[OF init_standing tad_standing h2]
  obtain rep where "main_segment decimal None one_camera standing_track = Inr rep"
    and "\<not> is_finite (dist_percentage rep)"
    by (auto simp: standing_state_def instant_state_def standing_track_def split: if_splits)
  then have b: "map_sum id (\<lambda>r. is_finite (dist_percentage r))
       (main_segment decimal None one_camera standing_track) = Inr False"
    by simp
  from zero_totals_unguarded[OF init_unwatched tad_no_cameras h3]
  obtain rep' where "main_segment decimal None no_cameras standing_track = Inr rep'"
    and "\<not> is_finite (dist_percentage rep')"
    by (auto simp: new_exposure_def standing_track_def split: if_splits)
  then have c: "map_sum id (\<lambda>r. is_finite (dist_percentage r))
       (main_segment decimal None no_cameras standing_track) = Inr False"
    by simp
  from a b c main_standing main_unwatched show ?thesis by simp
qed

subsection \<open>The range of the percentages (C5)\<close>

lemma time_percentage_of_finite:
  assumes "fval t = Fin r" and "secs \<noteq> 0"
  shows "time_percentage_of t secs = Inr (Fin (r / secs * 100))"
  using assms by (cases t) (simp_all add: time_percentage_of_def)

text \<open>
  C5 as stated: for every non-degenerate input both percentages lie in \<open>[0, 100]\<close>. On two
  points 0.111319 m apart, both in the FOV of one camera, the backward pass attributes
  one whole step of 0.5 m to the gap: the exposure distance is 0.5 m and the reported
  distance percentage is 449.16.
\<close>

theorem exposure_percentage_above_100:
  "map_sum id dist_percentage (main_segment decimal None one_camera short_track)
   = Inr (Fin 449.16)
   \<and> \<not> (449.16 :: real) \<le> 100"
proof -
  from main_short obtain rep where
    "main_segment decimal None one_camera short_track = Inr rep"
    "dist_percentage rep = Fin 449.16"
    by (cases "main_segment decimal None one_camera short_track") auto
  then show ?thesis by simp
qed

text \<open>
  C5, amended: for every non-degenerate input (total distance above 0, and total time
  above 0 when timestamps are present), once the catalog is loaded and both passes are
  through, \<open>main\<close> prints the report, and the reported distance percentage and time
  percentage are finite numbers that are not negative (the time percentage is reported
  exactly when timestamps are present). They have no upper bound of 100.
\<close>

theorem percentages_nonnegative:
  assumes "init B rad camfile seg = Inr ex"
    and "time_and_distance_in_camera_fov B ex = Inr (ex', d, t)"
    and "0 < total_distance ex"
    and "time_enabled ex \<longrightarrow> 0 < total_time ex"
  shows "\<exists>rep. main_segment B rad camfile seg = Inr rep
           \<and> (\<exists>p. dist_percentage rep = Fin p \<and> 0 \<le> p)
           \<and> (if time_enabled ex then \<exists>p. time_percentage rep = Some (Fin p) \<and> 0 \<le> p
              else time_percentage rep = None)"
proof -
  from init_known[OF assms(1)] have "points ex = seg"
    "total_distance ex = get_total_distance ex" by simp_all
  with get_total_distance_short[of ex] assms(3) have n: "2 \<le> length seg"
    by (cases "length seg < 2") auto
  from time_and_distance_frame[OF assms(2)] obtain r where
    d: "0 \<le> d" and r: "fval t = Fin r" "0 \<le> r"
    by (auto simp: fin_nonneg_def)
  from assms(4) time_percentage_of_finite[OF r(1)] have
    "time_enabled ex \<longrightarrow> time_percentage_of t (total_time ex)
                           = Inr (Fin (r / total_time ex * 100))"
    by auto
  from main_segment_report[OF assms(1,2) n this] obtain rep where
    m: "main_segment B rad camfile seg = Inr rep"
    and dp: "dist_percentage rep
             = xround2 (xscale (xdiv (Fin d) (Fin (total_distance ex))) 100)"
    and tp: "time_percentage rep
             = (if time_enabled ex then Some (xround2 (Fin (r / total_time ex * 100)))
                else None)"
    by blast
  from assms(3) have "dist_percentage rep = Fin (round2 (d / total_distance ex * 100))"
    unfolding dp by simp
  moreover from d assms(3) have "0 \<le> round2 (d / total_distance ex * 100)"
    by (intro round2_nonneg) simp
  ultimately have a: "\<exists>p. dist_percentage rep = Fin p \<and> 0 \<le> p" by blast
  have b: "if time_enabled ex then \<exists>p. time_percentage rep = Some (Fin p) \<and> 0 \<le> p
           else time_percentage rep = None"
  proof (cases "time_enabled ex")
    case True
    with assms(4) r(2) have "0 \<le> round2 (r / total_time ex * 100)"
      by (intro round2_nonneg) simp
    with True tp show ?thesis by simp
  next
    case False
    with tp show ?thesis by simp
  qed
  from m a b show ?thesis by blast
qed

theorem percentages_nonnegative_witness:
  "map_sum id (\<lambda>r. (dist_percentage r, time_percentage r))
     (main_segment decimal None one_camera stalled_track)
   = Inr (Fin 449.16, Some (Fin 449.16))
   \<and> (0::real) \<le> 449.16"
proof -
  have h3: "0 < total_distance stalled_state"
    by (simp add: stalled_state_def)
  have h4: "time_enabled stalled_state \<longrightarrow> 0 < total_time stalled_state"
    by (simp add: stalled_state_def)
  from percentages_nonnegative[OF init_stalled tad_stalled h3 h4] obtain rep p where
    m: "main_segment decimal None one_camera stalled_track = Inr rep"
    and p: "dist_percentage rep = Fin p" "0 \<le> p"
    by (auto split: if_splits)
  from main_stalled m have v: "dist_percentage rep = Fin 449.16"
    "time_percentage rep = Some (Fin 449.16)" by simp_all
  from v(1) p have "(0::real) \<le> 449.16" by simp
  with m v show ?thesis by simp
qed

subsection \<open>The total distance (C6)\<close>

text \<open>
  C6 as stated: the total distance reported for a segment is the sum of
  \<open>haversine_distance\<close> over the pairs of consecutive points. For two points on the
  equator a thousandth of a degree of longitude apart the report gives 111.319 m; the
  haversine distance of the two is \<open>6371 * pi / 180\<close>, about 111.195 m.
\<close>

theorem total_distance_not_haversine:
  "map_sum id report_total_distance (main_segment decimal None no_cameras equator_track)
   = Inr 111.319
   \<and> haversine_distance 0 0 0 0.001 < 111.319"
proof -
  have "haversine_distance 0 0 0 0.001 = 6371000 * (0.001 * pi / 180)"
    by (rule haversine_on_equator) simp_all
  moreover have "6371000 * (0.001 * pi / 180) < (111.319::real)"
    using pi_upper by simp
  ultimately show ?thesis using main_equator by simp
qed

text \<open>
  C6, amended: the total distance of a segment is the sum, over every pair of
  consecutive track points, of \<open>quick_distance\<close> from the later point to the earlier.
\<close>

theorem total_distance_is_quick_distance_sum:
  "get_total_distance self
   = (\<Sum>i < length (points self) - 1.
        quick_distance (latitude (points self ! Suc i)) (longitude (points self ! Suc i))
                       (latitude (points self ! i)) (longitude (points self ! i)))"
proof -
  let ?n = "length (points self)"
  let ?g = "\<lambda>i. quick_distance (latitude (points self ! Suc i)) (longitude (points self ! Suc i))
                       (latitude (points self ! i)) (longitude (points self ! i))"
  have "get_total_distance self
        = (\<Sum>i < ?n - 1. quick_distance (latitude (points self ! (?n - 1 - i)))
                                (longitude (points self ! (?n - 1 - i)))
                                (latitude (points self ! (?n - 2 - i)))
                                (longitude (points self ! (?n - 2 - i))))"
    by (simp add: get_total_distance_def Let_def fold_add_sum)
  also have "\<dots> = (\<Sum>i < ?n - 1. ?g (?n - 1 - Suc i))"
  proof (rule sum.cong)
    fix i assume "i \<in> {..<?n - 1}"
    then have "i < ?n - 1" by simp
    then have "Suc (?n - 1 - Suc i) = ?n - 1 - i" "?n - 2 - i = ?n - 1 - Suc i" by arith+
    then show "quick_distance (latitude (points self ! (?n - 1 - i)))
                                (longitude (points self ! (?n - 1 - i)))
                                (latitude (points self ! (?n - 2 - i)))
                                (longitude (points self ! (?n - 2 - i)))
               = ?g (?n - 1 - Suc i)" by simp
  qed simp
  also have "\<dots> = (\<Sum>i < ?n - 1. ?g i)"
    by (rule sum.nat_diff_reindex)
  finally show ?thesis .
qed

subsection \<open>A track outside every camera (C7)\<close>

text \<open>
  C7. When every point of the track lies beyond the effective radius of every camera,
  the membership pass records no membership and no camera (unique camera count 0), and
  the two exposure passes return a total exposure distance of 0 and a total exposure
  time of 0. The passes run on the object as \<open>__init__\<close> builds it before \<open>track_route\<close>.
\<close>

theorem track_outside_every_camera:
  assumes "\<forall>p \<in> set seg. \<forall>c \<in> set loaded.
           \<exists>clat clon fov. py_float B (get (snd c) ''latitude'') = Inr clat
             \<and> py_float B (get (snd c) ''longitude'') = Inr clon
             \<and> effective_radius B rad (snd c) = Inr fov
             \<and> fov < quick_distance (latitude p) (longitude p) clat clon"
  shows "\<exists>self. track_route B (new_exposure rad loaded seg) = Inr self
           \<and> cameras_per_point self = [] \<and> unique_cameras self = {} \<and> cam_amount self = 0
           \<and> time_and_distance_in_camera_fov B self = Inr (self, 0, PyFloat 0)"
proof -
  let ?s0 = "new_exposure rad loaded seg"
  have "\<forall>p \<in> set seg. \<forall>c \<in> set (cams ?s0).
          outside_camera B (radius ?s0) (snd c) (latitude p) (longitude p)"
    using assms by (simp add: outside_camera_def new_exposure_def)
  from track_route_loop_outside[OF this, of 0] obtain s1 where
    r: "track_route_loop B ?s0 0 seg = Inr s1"
    and f: "cameras_per_point s1 = []" "unique_cameras s1 = {}"
    by (auto simp: new_exposure_def)
  let ?s2 = "s1\<lparr>cam_amount := card (unique_cameras s1)\<rparr>"
  have tr: "track_route B ?s0 = Inr ?s2"
    using r by (simp add: track_route_def new_exposure_def)
  from f have "cameras_per_point ?s2 = [] \<and> unique_cameras ?s2 = {} \<and> cam_amount ?s2 = 0
    \<and> time_and_distance_in_camera_fov B ?s2 = Inr (?s2, 0, PyFloat 0)"
    by (simp add: time_and_distance_in_camera_fov_def calculate_direction_def)
  with tr show ?thesis by blast
qed

theorem track_outside_every_camera_witness:
  "track_route decimal (new_exposure None [(0, camera_at_origin)] far_track) = Inr far_state
   \<and> cameras_per_point far_state = [] \<and> cam_amount far_state = 0
   \<and> time_and_distance_in_camera_fov decimal far_state = Inr (far_state, 0, PyFloat 0)"
proof -
  have h: "\<forall>p \<in> set far_track. \<forall>c \<in> set [(0, camera_at_origin)].
           \<exists>clat clon fov. py_float decimal (get (snd c) ''latitude'') = Inr clat
             \<and> py_float decimal (get (snd c) ''longitude'') = Inr clon
             \<and> effective_radius decimal None (snd c) = Inr fov
             \<and> fov < quick_distance (latitude p) (longitude p) clat clon"
    by (simp add: far_track_def camera_at_origin_def fov_defs decimal_defs
          quick_distance_same_longitude)
  from track_outside_every_camera[OF h] track_far show ?thesis by auto
qed

subsection \<open>The attributed points of a camera (C8)\<close>

text \<open>
  C8. Within one traversal direction (one call of \<open>calculate_direction\<close>), when no
  camera's list of attributed points holds an index twice before the pass, none does
  after it: an index is appended only when the list does not hold it. The lists are
  empty when the first pass starts. The instance below runs the two passes on three
  points of which the first two carry one timestamp: the average speed over the first
  gap is \<open>inf\<close>, the pass goes on, and the camera's list is \<open>[1, 2]\<close>.
\<close>

theorem visited_points_stay_distinct:
  assumes "calculate_direction B self backward = Inr (self', total_meters, total_seconds)"
    and "\<forall>c e. cam_expo self c = Some e \<longrightarrow> distinct (ce_points e)"
  shows "\<forall>c e. cam_expo self' c = Some e \<longrightarrow> distinct (ce_points e)"
  using points_loop_distinct[OF assms(1)[unfolded calculate_direction_def]] assms(2)
  by (simp add: expo_distinct_def)

theorem visited_points_stay_distinct_witness:
  "calculate_direction decimal stalled_state True
     = Inr (stalled_state\<lparr>cam_expo := seen_twice\<rparr>, 1, NpFloat (Fin (500000 / 111319)))
   \<and> calculate_direction decimal (stalled_state\<lparr>cam_expo := seen_twice\<rparr>) False
     = Inr (stalled_state\<lparr>cam_expo := seen_twice\<rparr>, 0, PyFloat 0)
   \<and> seen_twice 0 = Some \<lparr>ce_points = [1, 2], ce_dist = 1, ce_time = Fin 4.49\<rparr>
   \<and> distinct (ce_points \<lparr>ce_points = [1, 2], ce_dist = 1, ce_time = Fin 4.49\<rparr>)"
proof -
  have h: "\<forall>c e. cam_expo stalled_state c = Some e \<longrightarrow> distinct (ce_points e)"
    by (simp add: stalled_state_def)
  have s: "seen_twice 0 = Some \<lparr>ce_points = [1, 2], ce_dist = 1, ce_time = Fin 4.49\<rparr>"
    by (simp add: seen_twice_def)
  note after_back = visited_points_stay_distinct[OF back_stalled h]
  note after_front = visited_points_stay_distinct[OF front_stalled after_back]
  from after_front s
  have "distinct (ce_points \<lparr>ce_points = [1, 2], ce_dist = 1, ce_time = Fin 4.49\<rparr>)"
    by fastforce
  with back_stalled front_stalled s show ?thesis by blast
qed

subsection \<open>An attributed point without a speed (C10)\<close>



end
